theory Spec2Isabelle
  imports Main
begin

section \<open>Host capabilities shared by the camera hooks\<close>

text \<open>
  The repository holds one current camera hook (\<^verbatim>\<open>src/hooks/useCamera.ts\<close>) and several
  earlier revisions of the same hook (the unnamed parts 000 to 003). Each hook owns a few
  React state cells and refs and talks to two host capabilities: the device capability
  \<^verbatim>\<open>navigator.mediaDevices.getUserMedia\<close> and the timer capability \<^verbatim>\<open>setTimeout\<close>.
  The model keeps the cells, the refs and a log of what the hook did to the two
  capabilities in one record, and every hook function is a transformer of that record.
\<close>

datatype facing = User | Environment

text \<open>
  A media stream is identified by the order in which the device handed it out. The hooks
  only ever stop all tracks of a stream together
  (\<^verbatim>\<open>s.getTracks().forEach(track => track.stop())\<close>), so the release log is kept per
  stream.
\<close>

datatype MediaStream = MediaStream (sid: nat)

text \<open>
  What a \<^verbatim>\<open>catch (err)\<close> clause can receive: an \<^verbatim>\<open>Error\<close> instance with its
  \<^verbatim>\<open>name\<close> and \<^verbatim>\<open>message\<close>, or a value that is not an \<^verbatim>\<open>Error\<close> instance (the hooks
  test \<^verbatim>\<open>err instanceof Error\<close>).
\<close>

datatype rejection = ErrorObj (name: string) (message: string) | NonError

text \<open>How the device settles one pending \<^verbatim>\<open>getUserMedia\<close> promise.\<close>

datatype outcome = Granted | Rejected rejection

text \<open>
  The constraints object of a \<^verbatim>\<open>getUserMedia\<close> call: ideal width and height and the
  facing mode of the \<^verbatim>\<open>video\<close> member (all absent for \<^verbatim>\<open>video: true\<close>), and the
  \<^verbatim>\<open>audio\<close> member when it is given.
\<close>

datatype constraints =
  Constraints (ideal_width: "nat option") (ideal_height: "nat option")
    (wanted_facing: "facing option") (audio: "bool option")

record props =
  enabled :: bool
  facingMode :: facing

record camera =
  stream :: "MediaStream option"
  error :: string
  isLoading :: bool
  isReady :: bool
  permissionGranted :: "bool option"
  streamRef :: "MediaStream option"
  timeoutRef :: "nat option"
  currentFacingMode :: facing
  hasGetUserMedia :: bool
  calls :: "constraints list"
  settled :: nat
  opened :: nat
  released :: "MediaStream list"
  now :: nat
  timers :: "(nat \<times> nat \<times> string) list"
  timersCreated :: nat

text \<open>
  The first eight fields are the hook's own cells (\<^verbatim>\<open>useState\<close> and \<^verbatim>\<open>useRef\<close>; a
  revision that lacks a cell never touches it). The rest is the host:
  \<^item> \<open>hasGetUserMedia\<close>: whether \<^verbatim>\<open>navigator.mediaDevices.getUserMedia\<close> exists;
  \<^item> \<open>calls\<close>: the device-open calls issued so far, \<open>settled\<close>: how many of their
    promises the device has settled, \<open>opened\<close>: how many streams it has handed out;
  \<^item> \<open>released\<close>: the streams whose tracks were stopped, one entry per
    \<^verbatim>\<open>forEach(track => track.stop())\<close>;
  \<^item> \<open>now\<close>, \<open>timers\<close>, \<open>timersCreated\<close>: the clock in milliseconds and the armed
    timers (identifier, due time, the message their callback sets).
\<close>

definition mounted :: "bool \<Rightarrow> facing \<Rightarrow> camera" where
  "mounted supported fm =
     \<lparr>stream = None, error = '''', isLoading = False, isReady = False,
      permissionGranted = None, streamRef = None, timeoutRef = None,
      currentFacingMode = fm, hasGetUserMedia = supported, calls = [], settled = 0,
      opened = 0, released = [], now = 0, timers = [], timersCreated = 0\<rparr>"

text \<open>
  An \<^verbatim>\<open>async\<close> function runs until it returns, throws, or suspends at an \<^verbatim>\<open>await\<close>.
  Each async function of the hooks awaits one device call, so it is modelled by two
  transformers: \<open>f_call\<close> (from the call to the \<^verbatim>\<open>await\<close>) and \<open>f_settle\<close> (from the
  settlement of the awaited promise to the end). A thrown value keeps the world as it was
  at the throw.
\<close>

datatype completion = Returns camera | Throws rejection camera | Awaits camera

fun world :: "completion \<Rightarrow> camera" where
  "world (Returns s) = s"
| "world (Throws e s) = s"
| "world (Awaits s) = s"

definition try_catch :: "completion \<Rightarrow> (rejection \<Rightarrow> camera \<Rightarrow> camera) \<Rightarrow> completion" where
  "try_catch c handler = (case c of Throws e s \<Rightarrow> Returns (handler e s) | _ \<Rightarrow> c)"

definition undefined_read_message :: string where
  "undefined_read_message = ''Cannot read properties of undefined (reading 'getUserMedia')''"

text \<open>
  \<^verbatim>\<open>navigator.mediaDevices.getUserMedia(c)\<close>: where the capability is missing the member
  access throws a \<^verbatim>\<open>TypeError\<close>; otherwise the call is logged and its promise is pending.
\<close>

definition getUserMedia :: "constraints \<Rightarrow> camera \<Rightarrow> completion" where
  "getUserMedia c s =
     (if hasGetUserMedia s then Awaits (s\<lparr>calls := calls s @ [c]\<rparr>)
      else Throws (ErrorObj ''TypeError'' undefined_read_message) s)"

text \<open>The device settles a pending promise: with a fresh stream, or with a rejection.\<close>

definition settle :: "outcome \<Rightarrow> camera \<Rightarrow> (rejection + MediaStream) \<times> camera" where
  "settle out s =
     (case out of
        Granted \<Rightarrow>
          (Inr (MediaStream (opened s)), s\<lparr>opened := Suc (opened s), settled := Suc (settled s)\<rparr>)
      | Rejected e \<Rightarrow> (Inl e, s\<lparr>settled := Suc (settled s)\<rparr>))"

definition pending :: "camera \<Rightarrow> nat" where
  "pending s = length (calls s) - settled s"

definition stopTracks :: "MediaStream \<Rightarrow> camera \<Rightarrow> camera" where
  "stopTracks m s = s\<lparr>released := released s @ [m]\<rparr>"

text \<open>The streams the device has handed out whose tracks were never stopped.\<close>

definition unreleased :: "camera \<Rightarrow> MediaStream list" where
  "unreleased s = filter (\<lambda>m. m \<notin> set (released s)) (map MediaStream [0..<opened s])"

section \<open>The current hook: src/hooks/useCamera.ts\<close>

definition stopCamera :: "camera \<Rightarrow> camera" where
  "stopCamera s =
     (let s1 = (case streamRef s of
                  Some m \<Rightarrow> (stopTracks m s)\<lparr>streamRef := None\<rparr>
                | None \<Rightarrow> s)
      in s1\<lparr>stream := None, isReady := False, isLoading := False\<rparr>)"

definition startCamera_catch :: "rejection \<Rightarrow> camera \<Rightarrow> camera" where
  "startCamera_catch err s =
     (let s1 = s\<lparr>isLoading := False, isReady := False\<rparr>
      in case err of
           ErrorObj n m \<Rightarrow>
             if n = ''NotAllowedError''
             then s1\<lparr>error := ''Camera access denied. Click \"Grant Permission\" below.''\<rparr>
             else if n = ''NotFoundError''
             then s1\<lparr>error := ''No camera found on this device.''\<rparr>
             else s1\<lparr>error := ''Unable to access camera. Please try again.''\<rparr>
         | NonError \<Rightarrow> s1)"

definition startCamera_try :: "props \<Rightarrow> camera \<Rightarrow> completion" where
  "startCamera_try p s =
     (let s1 = s\<lparr>error := '''', isLoading := True, isReady := False\<rparr>;
          s2 = stopCamera s1
      in getUserMedia (Constraints (Some 640) (Some 480) (Some (facingMode p)) None) s2)"

definition startCamera_call :: "props \<Rightarrow> camera \<Rightarrow> completion" where
  "startCamera_call p s =
     (if \<not> enabled p then Returns (stopCamera s)
      else try_catch (startCamera_try p s) startCamera_catch)"

definition startCamera_try_rest :: "outcome \<Rightarrow> camera \<Rightarrow> completion" where
  "startCamera_try_rest out s =
     (case settle out s of
        (Inl err, s1) \<Rightarrow> Throws err s1
      | (Inr mediaStream, s1) \<Rightarrow>
          Returns (s1\<lparr>streamRef := Some mediaStream, stream := Some mediaStream,
                      isLoading := False, isReady := True\<rparr>))"

definition startCamera_settle :: "outcome \<Rightarrow> camera \<Rightarrow> completion" where
  "startCamera_settle out s = try_catch (startCamera_try_rest out s) startCamera_catch"


text \<open>
  \<^verbatim>\<open>requestPermission\<close> is memoised with an empty dependency list, so the
  \<^verbatim>\<open>startCamera\<close> it calls is the one of the first render: \<open>p0\<close> are the props that
  render saw. The call \<^verbatim>\<open>startCamera()\<close> is not awaited: it runs up to its own
  \<^verbatim>\<open>await\<close> and \<^verbatim>\<open>requestPermission\<close> returns.
\<close>

definition requestPermission_catch :: "rejection \<Rightarrow> camera \<Rightarrow> camera" where
  "requestPermission_catch err s =
     s\<lparr>error := ''Camera permission denied. Please allow camera access.''\<rparr>"

definition requestPermission_try :: "camera \<Rightarrow> completion" where
  "requestPermission_try s =
     getUserMedia (Constraints None None None None) (s\<lparr>error := ''''\<rparr>)"

definition requestPermission_call :: "camera \<Rightarrow> completion" where
  "requestPermission_call s = try_catch (requestPermission_try s) requestPermission_catch"

definition requestPermission_try_rest :: "props \<Rightarrow> outcome \<Rightarrow> camera \<Rightarrow> completion" where
  "requestPermission_try_rest p0 out s =
     (case settle out s of
        (Inl err, s1) \<Rightarrow> Throws err s1
      | (Inr tempStream, s1) \<Rightarrow> Returns (world (startCamera_call p0 (stopTracks tempStream s1))))"

definition requestPermission_settle :: "props \<Rightarrow> outcome \<Rightarrow> camera \<Rightarrow> completion" where
  "requestPermission_settle p0 out s =
     try_catch (requestPermission_try_rest p0 out s) requestPermission_catch"

section \<open>Revision with a permission cell and one effect (unnamed part 001)\<close>

definition stopCamera_p1 :: "camera \<Rightarrow> camera" where
  "stopCamera_p1 s =
     (let s1 = (case streamRef s of
                  Some m \<Rightarrow> (stopTracks m s)\<lparr>streamRef := None\<rparr>
                | None \<Rightarrow> s)
      in s1\<lparr>stream := None, isReady := False, isLoading := False\<rparr>)"

definition startCamera_p1_catch :: "rejection \<Rightarrow> camera \<Rightarrow> camera" where
  "startCamera_p1_catch err s =
     (let s1 = s\<lparr>isLoading := False, isReady := False\<rparr>
      in case err of
           ErrorObj n m \<Rightarrow>
             if n = ''NotAllowedError''
             then s1\<lparr>permissionGranted := Some False,
                     error := ''Camera access denied. Please allow camera access.''\<rparr>
             else if n = ''NotFoundError''
             then s1\<lparr>error := ''No camera found on this device.''\<rparr>
             else if n = ''NotReadableError''
             then s1\<lparr>error := ''Camera is already in use by another application.''\<rparr>
             else s1\<lparr>error := ''Camera error: '' @ m\<rparr>
         | NonError \<Rightarrow> s1)"

definition startCamera_p1_try :: "props \<Rightarrow> camera \<Rightarrow> completion" where
  "startCamera_p1_try p s =
     (let s1 = s\<lparr>error := '''', isLoading := True\<rparr>;
          s2 = (case streamRef s1 of Some m \<Rightarrow> stopTracks m s1 | None \<Rightarrow> s1)
      in getUserMedia (Constraints (Some 640) (Some 480) (Some (facingMode p)) None) s2)"

definition startCamera_p1_call :: "props \<Rightarrow> camera \<Rightarrow> completion" where
  "startCamera_p1_call p s =
     (if \<not> enabled p then Returns (stopCamera_p1 s)
      else try_catch (startCamera_p1_try p s) startCamera_p1_catch)"

definition startCamera_p1_try_rest :: "outcome \<Rightarrow> camera \<Rightarrow> completion" where
  "startCamera_p1_try_rest out s =
     (case settle out s of
        (Inl err, s1) \<Rightarrow> Throws err s1
      | (Inr mediaStream, s1) \<Rightarrow>
          Returns (s1\<lparr>streamRef := Some mediaStream, stream := Some mediaStream,
                      isLoading := False, isReady := True,
                      permissionGranted := Some True\<rparr>))"

definition startCamera_p1_settle :: "outcome \<Rightarrow> camera \<Rightarrow> completion" where
  "startCamera_p1_settle out s =
     try_catch (startCamera_p1_try_rest out s) startCamera_p1_catch"

definition requestPermission_p1 :: "props \<Rightarrow> camera \<Rightarrow> camera" where
  "requestPermission_p1 p s = world (startCamera_p1_call p s)"

text \<open>
  The effect with dependencies \<^verbatim>\<open>[enabled, facingMode, startCamera]\<close>: it runs after
  every render in which \<^verbatim>\<open>enabled\<close> or \<^verbatim>\<open>facingMode\<close> changed, with the props of that
  render.
\<close>

definition effect_p1 :: "props \<Rightarrow> camera \<Rightarrow> camera" where
  "effect_p1 p s =
     (if \<not> enabled p then (stopCamera_p1 s)\<lparr>permissionGranted := None, error := ''''\<rparr>
      else world (startCamera_p1_call p s))"

section \<open>Revision with a permission probe and a permission gate (unnamed part 003)\<close>

text \<open>
  \<^verbatim>\<open>startCamera\<close> reads \<^verbatim>\<open>enabled\<close>, \<^verbatim>\<open>facingMode\<close> and the state
  \<^verbatim>\<open>permissionGranted\<close> as the render that created it saw them: \<open>p\<close> and \<open>g\<close>.
\<close>

definition stopCamera_p3 :: "camera \<Rightarrow> camera" where
  "stopCamera_p3 s =
     (let s1 = (case streamRef s of
                  Some m \<Rightarrow> (stopTracks m s)\<lparr>streamRef := None\<rparr>
                | None \<Rightarrow> s)
      in s1\<lparr>stream := None, isReady := False, isLoading := False\<rparr>)"

definition startCamera_p3_catch :: "rejection \<Rightarrow> camera \<Rightarrow> camera" where
  "startCamera_p3_catch err s =
     (let s1 = s\<lparr>isLoading := False, isReady := False\<rparr>
      in case err of
           ErrorObj n m \<Rightarrow>
             if n = ''NotAllowedError''
             then s1\<lparr>permissionGranted := Some False,
                     error := ''Camera access denied. Please click \"Allow Camera\" below.''\<rparr>
             else if n = ''NotFoundError''
             then s1\<lparr>error := ''No camera found on this device.''\<rparr>
             else s1\<lparr>error := ''Camera error: '' @ m\<rparr>
         | NonError \<Rightarrow> s1)"

definition startCamera_p3_try :: "props \<Rightarrow> camera \<Rightarrow> completion" where
  "startCamera_p3_try p s =
     (let s1 = s\<lparr>error := '''', isLoading := True\<rparr>;
          s2 = (case streamRef s1 of Some m \<Rightarrow> stopTracks m s1 | None \<Rightarrow> s1)
      in getUserMedia (Constraints (Some 640) (Some 480) (Some (facingMode p)) None) s2)"

definition startCamera_p3_call :: "props \<Rightarrow> bool option \<Rightarrow> camera \<Rightarrow> completion" where
  "startCamera_p3_call p g s =
     (if \<not> enabled p then Returns (stopCamera_p3 s)
      else if g = Some False
      then Returns (s\<lparr>error := ''Camera permission denied. Please allow camera access.''\<rparr>)
      else try_catch (startCamera_p3_try p s) startCamera_p3_catch)"

definition startCamera_p3_try_rest :: "outcome \<Rightarrow> camera \<Rightarrow> completion" where
  "startCamera_p3_try_rest out s =
     (case settle out s of
        (Inl err, s1) \<Rightarrow> Throws err s1
      | (Inr mediaStream, s1) \<Rightarrow>
          Returns (s1\<lparr>streamRef := Some mediaStream, stream := Some mediaStream,
                      isLoading := False, isReady := True,
                      permissionGranted := Some True\<rparr>))"

definition startCamera_p3_settle :: "outcome \<Rightarrow> camera \<Rightarrow> completion" where
  "startCamera_p3_settle out s =
     try_catch (startCamera_p3_try_rest out s) startCamera_p3_catch"

text \<open>
  \<^verbatim>\<open>requestPermission\<close> has an empty dependency list: the \<^verbatim>\<open>startCamera\<close> it awaits is
  the one of the first render, with that render's props \<open>p0\<close> and permission state \<open>g0\<close>.
\<close>

definition requestPermission_p3_catch :: "rejection \<Rightarrow> camera \<Rightarrow> camera" where
  "requestPermission_p3_catch err s =
     (let s1 = s\<lparr>permissionGranted := Some False, isLoading := False\<rparr>
      in case err of
           ErrorObj n m \<Rightarrow>
             if n = ''NotAllowedError''
             then s1\<lparr>error := ''Camera access denied. Please click the camera icon in your browser's address bar to allow access.''\<rparr>
             else if n = ''NotFoundError''
             then s1\<lparr>error := ''No camera found on this device.''\<rparr>
             else s1\<lparr>error := ''Unable to access camera. Please try again.''\<rparr>
         | NonError \<Rightarrow> s1)"

definition requestPermission_p3_try :: "camera \<Rightarrow> completion" where
  "requestPermission_p3_try s =
     getUserMedia (Constraints None None (Some User) None) (s\<lparr>error := '''', isLoading := True\<rparr>)"

definition requestPermission_p3_call :: "camera \<Rightarrow> completion" where
  "requestPermission_p3_call s =
     try_catch (requestPermission_p3_try s) requestPermission_p3_catch"

definition requestPermission_p3_try_rest ::
  "props \<Rightarrow> bool option \<Rightarrow> outcome \<Rightarrow> camera \<Rightarrow> completion" where
  "requestPermission_p3_try_rest p0 g0 out s =
     (case settle out s of
        (Inl err, s1) \<Rightarrow> Throws err s1
      | (Inr tempStream, s1) \<Rightarrow>
          startCamera_p3_call p0 g0 ((stopTracks tempStream s1)\<lparr>permissionGranted := Some True\<rparr>))"

definition requestPermission_p3_settle ::
  "props \<Rightarrow> bool option \<Rightarrow> outcome \<Rightarrow> camera \<Rightarrow> completion" where
  "requestPermission_p3_settle p0 g0 out s =
     try_catch (requestPermission_p3_try_rest p0 g0 out s) requestPermission_p3_catch"

text \<open>
  The effect with dependency \<^verbatim>\<open>[facingMode]\<close>: its closure is the one of the render in
  which the facing mode changed, so the cells it reads are the current ones.
\<close>

definition effect_facingMode_p3 :: "props \<Rightarrow> camera \<Rightarrow> camera" where
  "effect_facingMode_p3 p s =
     (if enabled p \<and> permissionGranted s = Some True \<and> \<not> isLoading s
      then world (startCamera_p3_call p (permissionGranted s) s)
      else s)"

section \<open>The timer capability\<close>

text \<open>
  Every timer the hooks arm has a callback of the same shape,
  \<^verbatim>\<open>setIsLoading(false); setError(msg)\<close>, so an armed timer is stored with its message.
  Timer identifiers are positive, as in the host, so \<^verbatim>\<open>if (timeoutRef.current)\<close> tests
  whether a timer was ever stored in the ref.
\<close>

definition setTimeout :: "string \<Rightarrow> nat \<Rightarrow> camera \<Rightarrow> nat \<times> camera" where
  "setTimeout msg delay s =
     (let i = Suc (timersCreated s)
      in (i, s\<lparr>timersCreated := i, timers := timers s @ [(i, now s + delay, msg)]\<rparr>))"

definition clearTimeout :: "nat \<Rightarrow> camera \<Rightarrow> camera" where
  "clearTimeout i s = s\<lparr>timers := filter (\<lambda>(j, due, msg). j \<noteq> i) (timers s)\<rparr>"

definition clearTimeoutRef :: "camera \<Rightarrow> camera" where
  "clearTimeoutRef s = (case timeoutRef s of Some i \<Rightarrow> clearTimeout i s | None \<Rightarrow> s)"

definition fire :: "nat \<times> nat \<times> string \<Rightarrow> camera \<Rightarrow> camera" where
  "fire t s = (case t of (i, due, msg) \<Rightarrow> s\<lparr>isLoading := False, error := msg\<rparr>)"

text \<open>The clock moves to \<open>t\<close>: the timers due by then run their callbacks, in order.\<close>

definition advance :: "nat \<Rightarrow> camera \<Rightarrow> camera" where
  "advance t s =
     (let due = filter (\<lambda>(i, d, msg). d \<le> t) (timers s);
          later = filter (\<lambda>(i, d, msg). \<not> d \<le> t) (timers s)
      in (fold fire due s)\<lparr>timers := later, now := max (now s) t\<rparr>)"

section \<open>Revision with a three second timer (unnamed part 000, first hook)\<close>

text \<open>
  This revision keeps the stream in React state only. \<^verbatim>\<open>stopCamera\<close> and
  \<^verbatim>\<open>initializeCamera\<close> read \<^verbatim>\<open>stream\<close> as the render that created them saw it: the
  argument \<open>seen\<close>. After the \<^verbatim>\<open>await\<close> the function reads no captured value.
\<close>

definition stopCamera_p0 :: "MediaStream option \<Rightarrow> camera \<Rightarrow> camera" where
  "stopCamera_p0 seen s =
     (let s1 = (case seen of
                  Some m \<Rightarrow> (stopTracks m s)\<lparr>stream := None\<rparr>
                | None \<Rightarrow> s)
      in clearTimeoutRef (s1\<lparr>isReady := False, isLoading := False\<rparr>))"

definition timeout_message_p0 :: string where
  "timeout_message_p0 =
     ''Camera is taking too long to load. Click \"Grant Permission\" to try again.''"

definition initializeCamera_p0_catch :: "rejection \<Rightarrow> camera \<Rightarrow> camera" where
  "initializeCamera_p0_catch err s =
     (let s1 = clearTimeoutRef (s\<lparr>isLoading := False, isReady := False\<rparr>)
      in case err of
           ErrorObj n m \<Rightarrow>
             if n = ''NotAllowedError''
             then s1\<lparr>error := ''Camera access denied. Click \"Grant Permission\" to allow camera access.''\<rparr>
             else if n = ''NotFoundError''
             then s1\<lparr>error := ''No camera found. Please connect a camera device.''\<rparr>
             else if n = ''NotReadableError''
             then s1\<lparr>error := ''Camera is being used by another application. Please close other camera apps.''\<rparr>
             else s1\<lparr>error := ''Unable to access camera. Click \"Grant Permission\" to try again.''\<rparr>
         | NonError \<Rightarrow> s1)"

definition initializeCamera_p0_try :: "props \<Rightarrow> MediaStream option \<Rightarrow> camera \<Rightarrow> completion" where
  "initializeCamera_p0_try p seen s =
     (let s1 = s\<lparr>error := '''', isLoading := True, isReady := False\<rparr>;
          s2 = clearTimeoutRef s1;
          (i, s3) = setTimeout timeout_message_p0 3000 s2;
          s4 = s3\<lparr>timeoutRef := Some i\<rparr>;
          s5 = (case seen of
                  Some m \<Rightarrow> (stopTracks m s4)\<lparr>stream := None\<rparr>
                | None \<Rightarrow> s4)
      in if \<not> hasGetUserMedia s5
         then Throws (ErrorObj ''Error'' ''Camera not supported by this browser'') s5
         else getUserMedia (Constraints (Some 320) (Some 240) (Some (facingMode p)) (Some False)) s5)"

definition initializeCamera_p0_call :: "props \<Rightarrow> MediaStream option \<Rightarrow> camera \<Rightarrow> completion" where
  "initializeCamera_p0_call p seen s =
     (if \<not> enabled p then Returns s
      else try_catch (initializeCamera_p0_try p seen s) initializeCamera_p0_catch)"

definition initializeCamera_p0_try_rest :: "outcome \<Rightarrow> camera \<Rightarrow> completion" where
  "initializeCamera_p0_try_rest out s =
     (case settle out s of
        (Inl err, s1) \<Rightarrow> Throws err s1
      | (Inr mediaStream, s1) \<Rightarrow>
          Returns ((clearTimeoutRef s1)\<lparr>stream := Some mediaStream, isLoading := False,
                                        isReady := True\<rparr>))"

definition initializeCamera_p0_settle :: "outcome \<Rightarrow> camera \<Rightarrow> completion" where
  "initializeCamera_p0_settle out s =
     try_catch (initializeCamera_p0_try_rest out s) initializeCamera_p0_catch"

text \<open>
  The effect with dependency \<^verbatim>\<open>[enabled]\<close>. When \<^verbatim>\<open>enabled\<close> changes, React first runs
  the cleanup the effect returned the last time it ran (a \<^verbatim>\<open>stopCamera\<close> that saw the
  stream of that earlier render, \<open>seen_before\<close>) and then the effect of the new render,
  whose closures saw the stream cell as it was at that render, before the cleanup.
\<close>

definition effect_enabled_p0 :: "props \<Rightarrow> MediaStream option \<Rightarrow> camera \<Rightarrow> camera" where
  "effect_enabled_p0 p seen s =
     (if enabled p then world (initializeCamera_p0_call p seen s)
      else stopCamera_p0 seen s)"

definition setEnabled_p0 :: "props \<Rightarrow> MediaStream option \<Rightarrow> camera \<Rightarrow> camera" where
  "setEnabled_p0 p seen_before s =
     effect_enabled_p0 p (stream s) (stopCamera_p0 seen_before s)"

text \<open>The effect with dependency \<^verbatim>\<open>[facingMode]\<close>; it has no cleanup.\<close>

definition effect_facingMode_p0 :: "props \<Rightarrow> camera \<Rightarrow> camera" where
  "effect_facingMode_p0 p s =
     (if enabled p \<and> stream s \<noteq> None
      then world (initializeCamera_p0_call p (stream s) s)
      else s)"

section \<open>Revision with a five second timer and a facing-mode ref (unnamed part 002)\<close>

definition timeout_message_p2 :: string where
  "timeout_message_p2 =
     ''Camera is taking too long to load. Please try refreshing the page or check your camera.''"

definition initializeCamera_p2_catch :: "rejection \<Rightarrow> camera \<Rightarrow> camera" where
  "initializeCamera_p2_catch err s =
     (let s1 = clearTimeoutRef (s\<lparr>isLoading := False, isReady := False\<rparr>)
      in case err of
           ErrorObj n m \<Rightarrow>
             if n = ''NotAllowedError''
             then s1\<lparr>error := ''Camera access denied. Please grant camera permission to continue.''\<rparr>
             else if n = ''NotFoundError''
             then s1\<lparr>error := ''No camera found. Please connect a camera device.''\<rparr>
             else if n = ''NotReadableError''
             then s1\<lparr>error := ''Camera is already in use by another application. Please close other camera apps and try again.''\<rparr>
             else if n = ''OverconstrainedError''
             then s1\<lparr>error := ''Camera settings not supported. Please try switching cameras.''\<rparr>
             else if n = ''NotSupportedError''
             then s1\<lparr>error := ''Camera not supported by this browser.''\<rparr>
             else s1\<lparr>error := m\<rparr>
         | NonError \<Rightarrow>
             s1\<lparr>error := ''Unable to access camera. Please check your permissions and try again.''\<rparr>)"

definition initializeCamera_p2_try :: "MediaStream option \<Rightarrow> camera \<Rightarrow> completion" where
  "initializeCamera_p2_try seen s =
     (let s1 = s\<lparr>error := '''', isLoading := True, isReady := False\<rparr>;
          s2 = clearTimeoutRef s1;
          (i, s3) = setTimeout timeout_message_p2 5000 s2;
          s4 = s3\<lparr>timeoutRef := Some i\<rparr>;
          s5 = (case seen of
                  Some m \<Rightarrow> (stopTracks m s4)\<lparr>stream := None\<rparr>
                | None \<Rightarrow> s4)
      in if \<not> hasGetUserMedia s5
         then Throws (ErrorObj ''Error'' ''Camera not supported by this browser'') s5
         else getUserMedia
                (Constraints (Some 480) (Some 360)
                   (Some (if currentFacingMode s5 = Environment then Environment else User))
                   (Some False)) s5)"

definition initializeCamera_p2_call :: "MediaStream option \<Rightarrow> camera \<Rightarrow> completion" where
  "initializeCamera_p2_call seen s =
     try_catch (initializeCamera_p2_try seen s) initializeCamera_p2_catch"

text \<open>
  On success this revision also returns the stream; the promise's value is the second
  component (\<open>None\<close> for \<^verbatim>\<open>undefined\<close>, after a caught failure).
\<close>

definition initializeCamera_p2_try_rest :: "outcome \<Rightarrow> camera \<Rightarrow> completion \<times> MediaStream option" where
  "initializeCamera_p2_try_rest out s =
     (case settle out s of
        (Inl err, s1) \<Rightarrow> (Throws err s1, None)
      | (Inr mediaStream, s1) \<Rightarrow>
          (Returns ((clearTimeoutRef s1)\<lparr>stream := Some mediaStream, isLoading := False,
                                         isReady := True\<rparr>), Some mediaStream))"

definition initializeCamera_p2_settle :: "outcome \<Rightarrow> camera \<Rightarrow> completion \<times> MediaStream option" where
  "initializeCamera_p2_settle out s =
     (case initializeCamera_p2_try_rest out s of
        (c, v) \<Rightarrow> (try_catch c initializeCamera_p2_catch, v))"

section \<open>What the caller shows: src/components/WebcamCapture.tsx\<close>

text \<open>
  The component that uses the hook chooses what to render from the hook's outputs, in
  this order. A hook that has no \<^verbatim>\<open>permissionGranted\<close> output leaves it undefined
  (\<open>None\<close>). The flag of \<open>CameraError\<close> tells whether the panel offers the permission
  button.
\<close>

datatype view = CameraDisabled | CameraError bool | CameraLoading | AllowCamera | Video

definition WebcamCapture_view :: "bool \<Rightarrow> camera \<Rightarrow> view" where
  "WebcamCapture_view en s =
     (if \<not> en then CameraDisabled
      else if error s \<noteq> '''' \<and> permissionGranted s = Some False then CameraError True
      else if error s \<noteq> '''' \<and> \<not> isLoading s then CameraError False
      else if isLoading s \<or> (stream s = None \<and> permissionGranted s \<noteq> Some False)
      then CameraLoading
      else if permissionGranted s = Some False \<and> error s = '''' then AllowCamera
      else Video)"

section \<open>Sequences of caller requests and device answers\<close>

text \<open>
  The current hook has no effect of its own. What it offers a caller for reacting to a
  change of \<^verbatim>\<open>enabled\<close> or of the facing mode is \<^verbatim>\<open>startCamera\<close> of the new render
  (which stops the camera when the hook is disabled) and \<^verbatim>\<open>stopCamera\<close>; an event is
  one such call. Between two calls the device may settle the oldest pending request; the
  continuation of \<^verbatim>\<open>startCamera\<close> then runs.
\<close>

datatype event = CallStart props | CallStop | Settle outcome

definition step :: "event \<Rightarrow> camera \<Rightarrow> camera" where
  "step e s =
     (case e of
        CallStart p \<Rightarrow> world (startCamera_call p s)
      | CallStop \<Rightarrow> stopCamera s
      | Settle out \<Rightarrow> if pending s = 0 then s else world (startCamera_settle out s))"

fun run :: "event list \<Rightarrow> camera \<Rightarrow> camera" where
  "run [] s = s"
| "run (e # es) s = run es (step e s)"

text \<open>
  In part 001 the effect reacts to the new props, and the continuation is that of its
  \<^verbatim>\<open>startCamera\<close>.
\<close>

definition step_p1 :: "event \<Rightarrow> camera \<Rightarrow> camera" where
  "step_p1 e s =
     (case e of
        CallStart p \<Rightarrow> effect_p1 p s
      | CallStop \<Rightarrow> stopCamera_p1 s
      | Settle out \<Rightarrow> if pending s = 0 then s else world (startCamera_p1_settle out s))"

fun run_p1 :: "event list \<Rightarrow> camera \<Rightarrow> camera" where
  "run_p1 [] s = s"
| "run_p1 (e # es) s = run_p1 es (step_p1 e s)"

text \<open>
  A sequence is free of overlap when no acquisition is started (a call with
  \<^verbatim>\<open>enabled\<close> true) while a device-open request is still pending.
\<close>

definition starts_acquisition :: "event \<Rightarrow> bool" where
  "starts_acquisition e = (case e of CallStart p \<Rightarrow> enabled p | _ \<Rightarrow> False)"

fun overlap_free :: "(event \<Rightarrow> camera \<Rightarrow> camera) \<Rightarrow> event list \<Rightarrow> camera \<Rightarrow> bool" where
  "overlap_free f [] s = True"
| "overlap_free f (e # es) s =
     ((if starts_acquisition e then pending s = 0 else True) \<and> overlap_free f es (f e s))"

section \<open>The message processor: src/components/AIProcessor.tsx\<close>

subsection \<open>JavaScript strings and parsed JSON\<close>

text \<open>
  Strings are byte lists. \<^verbatim>\<open>toLowerCase\<close> is modelled on the ASCII letters; other bytes
  stay as they are.
\<close>

definition toLowerCase :: "string \<Rightarrow> string" where
  "toLowerCase s =
     map (\<lambda>c. if 65 \<le> (of_char c :: nat) \<and> (of_char c :: nat) \<le> 90
              then char_of ((of_char c :: nat) + 32) else c) s"

fun startsWith :: "string \<Rightarrow> string \<Rightarrow> bool" where
  "startsWith s [] = True"
| "startsWith [] (k # ks) = False"
| "startsWith (c # cs) (k # ks) = (c = k \<and> startsWith cs ks)"

fun str_includes :: "string \<Rightarrow> string \<Rightarrow> bool" where
  "str_includes [] k = (k = [])"
| "str_includes (c # cs) k = (startsWith (c # cs) k \<or> str_includes cs k)"

fun digits :: "nat \<Rightarrow> string" where
  "digits n =
     (if n < 10 then [char_of (48 + n)]
      else digits (n div 10) @ [char_of (48 + n mod 10)])"

text \<open>
  A parsed JSON value. Numbers are kept as integers: the processor only tests a number
  for being zero.
\<close>

datatype json =
  JNull | JBool bool | JNum int | JStr string | JArr "json list" | JObj "(string \<times> json) list"

text \<open>
  \<open>get_member k v\<close> is \<^verbatim>\<open>v.k\<close> and \<open>get_first v\<close> is \<^verbatim>\<open>v[0]\<close>, for a value \<open>v\<close> that is neither
  \<^verbatim>\<open>null\<close> nor \<^verbatim>\<open>undefined\<close> and for the keys the processor reads (\<^verbatim>\<open>candidates\<close>,
  \<^verbatim>\<open>content\<close>, \<^verbatim>\<open>parts\<close>, \<^verbatim>\<open>text\<close>); \<open>None\<close> is \<^verbatim>\<open>undefined\<close>. Of a repeated key
  \<^verbatim>\<open>JSON.parse\<close> keeps the last value. \<open>optional\<close> is the \<^verbatim>\<open>?.\<close> of the source: it stops
  at \<^verbatim>\<open>null\<close> and \<^verbatim>\<open>undefined\<close>.
\<close>

fun get_member :: "string \<Rightarrow> json \<Rightarrow> json option" where
  "get_member k (JObj kvs) = map_of (rev kvs) k"
| "get_member k v = None"

fun get_first :: "json \<Rightarrow> json option" where
  "get_first (JArr xs) = (case xs of [] \<Rightarrow> None | x # _ \<Rightarrow> Some x)"
| "get_first (JStr s) = (case s of [] \<Rightarrow> None | c # _ \<Rightarrow> Some (JStr [c]))"
| "get_first (JObj kvs) = map_of (rev kvs) ''0''"
| "get_first v = None"

definition optional :: "(json \<Rightarrow> json option) \<Rightarrow> json option \<Rightarrow> json option" where
  "optional f v = (case v of None \<Rightarrow> None | Some JNull \<Rightarrow> None | Some x \<Rightarrow> f x)"

definition truthy :: "json \<Rightarrow> bool" where
  "truthy v = (v \<noteq> JNull \<and> v \<noteq> JBool False \<and> v \<noteq> JNum 0 \<and> v \<noteq> JStr '''')"

text \<open>
  \<^verbatim>\<open>data.candidates?.[0]?.content?.parts?.[0]?.text || dflt\<close>. The first member access
  is not optional: on \<^verbatim>\<open>null\<close> it throws.
\<close>

definition candidate_text :: "json \<Rightarrow> string \<Rightarrow> rejection + json" where
  "candidate_text data dflt =
     (if data = JNull
      then Inl (ErrorObj ''TypeError'' ''Cannot read properties of null (reading 'candidates')'')
      else
        (case optional (get_member ''text'')
                (optional get_first
                  (optional (get_member ''parts'')
                    (optional (get_member ''content'')
                      (optional get_first (get_member ''candidates'' data))))) of
           Some v \<Rightarrow> Inr (if truthy v then v else JStr dflt)
         | None \<Rightarrow> Inr (JStr dflt)))"

subsection \<open>The host: network, file reader, speech\<close>

datatype file_type = Image | Pdf | Other

record uploaded_file =
  file_id :: string
  file_name :: string
  ftype :: file_type
  url :: "string option"
  content :: "string option"

record response =
  status :: nat
  text_body :: "rejection + string"
  json_body :: "rejection + json"

text \<open>
  Reading a \<^verbatim>\<open>blob:\<close> image: the fetch or \<^verbatim>\<open>response.blob()\<close> may reject; then a
  \<^verbatim>\<open>FileReader\<close> is started and the promise around it resolves in \<^verbatim>\<open>onload\<close> only, so
  when the reader fails that promise never settles.
\<close>

datatype blob_read = BlobRejected rejection | ReaderSilent | ReaderLoaded string

text \<open>
  What the remote service answers is the host's choice. The model takes the outcome of
  the one API request a call makes as given, whatever the request says, so the prompt
  text that the functions assemble is not represented.
\<close>

record net =
  api :: "rejection + response"
  blob :: blob_read
  speechSynthesis :: bool

datatype 'a promise = Fulfilled 'a | RejectedWith rejection | Pending

text \<open>A reply is the value returned together with what was handed to the speech engine.\<close>

type_synonym reply = "json \<times> json list"

definition ok :: "response \<Rightarrow> bool" where
  "ok r = (200 \<le> status r \<and> status r \<le> 299)"

definition speakText :: "net \<Rightarrow> json \<Rightarrow> json list" where
  "speakText n v = (if speechSynthesis n then [v] else [])"

subsection \<open>The processor\<close>

definition visionKeywords :: "string list" where
  "visionKeywords =
     [''see'', ''look'', ''what'', ''how'', ''describe'', ''color'', ''wearing'', ''holding'',
      ''picture'', ''image'', ''show'', ''visible'', ''appearance'', ''behind'', ''front'',
      ''left'', ''right'', ''above'', ''below'', ''around'', ''gesture'', ''posture'',
      ''expression'', ''face'', ''hand'', ''object'', ''room'', ''background'', ''doing'',
      ''reading'', ''watching'', ''identify'', ''recognize'', ''analyze'', ''observe'']"

definition needsVision :: "string \<Rightarrow> bool" where
  "needsVision text = list_ex (str_includes (toLowerCase text)) visionKeywords"

text \<open>
  The three request functions share their tail: read the answer, take the candidate
  text or the default, speak it, return it. \<open>with_body\<close> tells whether a failed status
  is reported with the response text (which is then read first) or with the status alone.
\<close>

definition answer :: "net \<Rightarrow> bool \<Rightarrow> string \<Rightarrow> string \<Rightarrow> reply promise" where
  "answer n with_body failed dflt =
     (case api n of
        Inl e \<Rightarrow> RejectedWith e
      | Inr r \<Rightarrow>
          if \<not> ok r then
            (if with_body then
               (case text_body r of
                  Inl e \<Rightarrow> RejectedWith e
                | Inr errorText \<Rightarrow>
                    RejectedWith
                      (ErrorObj ''Error'' (failed @ digits (status r) @ '' - '' @ errorText)))
             else RejectedWith (ErrorObj ''Error'' (failed @ digits (status r))))
          else
            (case json_body r of
               Inl e \<Rightarrow> RejectedWith e
             | Inr data \<Rightarrow>
                 (case candidate_text data dflt of
                    Inl e \<Rightarrow> RejectedWith e
                  | Inr aiResponse \<Rightarrow> Fulfilled (aiResponse, speakText n aiResponse))))"

definition processWithFiles :: "net \<Rightarrow> string \<Rightarrow> uploaded_file list \<Rightarrow> reply promise" where
  "processWithFiles n text files =
     answer n False ''API request failed: '' ''I couldn't analyze the uploaded files properly.''"

definition processTextOnly :: "net \<Rightarrow> string \<Rightarrow> reply promise" where
  "processTextOnly n text =
     answer n True ''API request failed: '' ''I couldn't generate a response.''"

text \<open>
  \<^verbatim>\<open>processWithVision\<close> is typed to take a string, but one caller passes
  \<^verbatim>\<open>imageFile?.url\<close>, which may be \<^verbatim>\<open>undefined\<close> (\<open>None\<close>):
  \<^verbatim>\<open>imageData.startsWith\<close> then throws.
\<close>

definition processWithVision ::
  "net \<Rightarrow> string \<Rightarrow> string option \<Rightarrow> uploaded_file list option \<Rightarrow> reply promise" where
  "processWithVision n text imageData uploadedFiles =
     (case imageData of
        None \<Rightarrow>
          RejectedWith
            (ErrorObj ''TypeError'' ''Cannot read properties of undefined (reading 'startsWith')'')
      | Some d \<Rightarrow>
          if startsWith d ''blob:'' then
            (case blob n of
               BlobRejected e \<Rightarrow> RejectedWith e
             | ReaderSilent \<Rightarrow> Pending
             | ReaderLoaded result \<Rightarrow>
                 answer n True ''Vision API request failed: '' ''I couldn't analyze the image.'')
          else answer n True ''Vision API request failed: '' ''I couldn't analyze the image.'')"

definition fallback :: string where
  "fallback =
     ''I apologize, but I'm having trouble processing your request right now. Please try again in a moment.''"

definition processMessage_try ::
  "net \<Rightarrow> string \<Rightarrow> string option \<Rightarrow> uploaded_file list option \<Rightarrow> reply promise" where
  "processMessage_try n userMessage imageData uploadedFiles =
     (let useVision = (needsVision userMessage \<and> imageData \<noteq> None \<and> imageData \<noteq> Some '''');
          hasUploadedImages =
            (case uploadedFiles of
               None \<Rightarrow> False
             | Some fs \<Rightarrow> list_ex (\<lambda>f. ftype f = Image) fs)
      in if useVision
         then processWithVision n userMessage imageData uploadedFiles
         else if hasUploadedImages \<and> needsVision userMessage
         then processWithVision n userMessage
                (case uploadedFiles of
                   None \<Rightarrow> None
                 | Some fs \<Rightarrow>
                     (case List.find (\<lambda>f. ftype f = Image) fs of
                        None \<Rightarrow> None
                      | Some imageFile \<Rightarrow> url imageFile))
                uploadedFiles
         else (case uploadedFiles of
                 Some (f # fs) \<Rightarrow> processWithFiles n userMessage (f # fs)
               | _ \<Rightarrow> processTextOnly n userMessage))"

definition processMessage ::
  "net \<Rightarrow> string \<Rightarrow> string option \<Rightarrow> uploaded_file list option \<Rightarrow> reply promise" where
  "processMessage n userMessage imageData uploadedFiles =
     (case processMessage_try n userMessage imageData uploadedFiles of
        RejectedWith e \<Rightarrow> Fulfilled (JStr fallback, [])
      | p \<Rightarrow> p)"

text \<open>
  The ways the one API request of a call can fail: the network call rejects, the status
  is not a success, the body is not JSON, or the parsed body is \<^verbatim>\<open>null\<close>.
\<close>

definition request_fails :: "net \<Rightarrow> bool" where
  "request_fails n =
     (case api n of
        Inl e \<Rightarrow> True
      | Inr r \<Rightarrow> \<not> ok r \<or> (case json_body r of Inl e \<Rightarrow> True | Inr data \<Rightarrow> data = JNull))"

section \<open>The failure table of the specification\<close>

text \<open>
  The hooks record a failure as a message only. The specification names reasons; its
  table, in its own words (denial class, not-found class, busy class, anything else), is
  written down here to compare the messages of the hooks with it. The classes are the
  error names \<^verbatim>\<open>getUserMedia\<close> rejects with.
\<close>

datatype failure =
  PermissionDenied | DeviceNotFound | DeviceBusy | ConstraintsUnsupported | Unsupported
  | Timeout | Unknown

definition spec_reason :: "rejection \<Rightarrow> failure" where
  "spec_reason err =
     (case err of
        ErrorObj n m \<Rightarrow>
          if n = ''NotAllowedError'' then PermissionDenied
          else if n = ''NotFoundError'' then DeviceNotFound
          else if n = ''NotReadableError'' then DeviceBusy
          else Unknown
      | NonError \<Rightarrow> Unknown)"

section \<open>Invariants of the call sequences\<close>

text \<open>
  What holds of the current hook between events as long as acquisitions do not overlap:
  every released stream was released once and came from the device, the streams not yet
  released are exactly the one the ref holds, and nothing is held while a request is
  pending.
\<close>

definition one_handle :: "camera \<Rightarrow> bool" where
  "one_handle s \<longleftrightarrow> distinct (released s) \<and> (\<forall>m \<in> set (released s). sid m < opened s)
     \<and> unreleased s = (case streamRef s of None \<Rightarrow> [] | Some m \<Rightarrow> [m])
     \<and> (0 < pending s \<longrightarrow> streamRef s = None) \<and> pending s \<le> 1"

text \<open>
  Part 001 stops the tracks of the stream in the ref without clearing the ref, so the ref
  may hold a stream that is already released, and a stream may be released twice.
\<close>

definition one_handle_p1 :: "camera \<Rightarrow> bool" where
  "one_handle_p1 s \<longleftrightarrow> (\<forall>m \<in> set (released s). sid m < opened s)
     \<and> (\<forall>m. streamRef s = Some m \<longrightarrow> sid m < opened s)
     \<and> set (unreleased s) \<subseteq> set_option (streamRef s)
     \<and> (0 < pending s \<longrightarrow> unreleased s = []) \<and> pending s \<le> 1"

section \<open>Properties\<close>

subsection \<open>One open handle\<close>

lemma unreleased_opened:
  "(\<forall>m \<in> set (released s). sid m < opened s) \<Longrightarrow>
   unreleased (s\<lparr>opened := Suc (opened s)\<rparr>) = unreleased s @ [MediaStream (opened s)]"
  by (auto simp: unreleased_def)

lemma unreleased_released:
  "unreleased (s\<lparr>released := released s @ [m]\<rparr>) = filter (\<lambda>x. x \<noteq> m) (unreleased s)"
  by (auto simp: unreleased_def intro: filter_cong)

lemma unreleased_mem: "m \<in> set (unreleased s) \<longleftrightarrow> sid m < opened s \<and> m \<notin> set (released s)"
  by (cases m) (auto simp: unreleased_def)

lemma one_handle_stop: "one_handle s \<Longrightarrow> one_handle (stopCamera s)"
proof -
  assume a: "one_handle s"
  show ?thesis
  proof (cases "streamRef s")
    case None
    then have "stopCamera s = s\<lparr>stream := None, isReady := False, isLoading := False\<rparr>"
      by (simp add: stopCamera_def)
    with a None show ?thesis by (simp add: one_handle_def unreleased_def pending_def)
  next
    case (Some m)
    then have e: "stopCamera s = s\<lparr>released := released s @ [m], streamRef := None, stream := None, isReady := False, isLoading := False\<rparr>"
      by (simp add: stopCamera_def stopTracks_def)
    from a Some have u: "unreleased s = [m]" by (simp add: one_handle_def)
    then have "m \<in> set (unreleased s)" by simp
    then have m: "sid m < opened s" "m \<notin> set (released s)" by (simp_all add: unreleased_mem)
    have "unreleased (s\<lparr>released := released s @ [m]\<rparr>) = []"
      using u by (simp add: unreleased_released)
    then have "unreleased (stopCamera s) = []" by (simp add: e unreleased_def)
    with a m show ?thesis by (simp add: e one_handle_def pending_def)
  qed
qed

lemma one_handle_cells:
  "released s' = released s \<Longrightarrow> opened s' = opened s \<Longrightarrow> streamRef s' = streamRef s \<Longrightarrow>
   calls s' = calls s \<Longrightarrow> settled s' = settled s \<Longrightarrow> one_handle s' = one_handle s"
  by (simp add: one_handle_def unreleased_def pending_def)

lemma stopCamera_streamRef: "streamRef (stopCamera s) = None"
  by (simp add: stopCamera_def stopTracks_def split: option.splits)

lemma stopCamera_pending: "pending (stopCamera s) = pending s"
  by (simp add: stopCamera_def stopTracks_def pending_def split: option.splits)

lemma one_handle_call:
  assumes "one_handle s" and "enabled p \<Longrightarrow> pending s = 0"
  shows "one_handle (world (startCamera_call p s))"
proof (cases "enabled p")
  case False
  with assms show ?thesis by (simp add: startCamera_call_def one_handle_stop)
next
  case True
  define s1 where "s1 = s\<lparr>error := [], isLoading := True, isReady := False\<rparr>"
  define s2 where "s2 = stopCamera s1"
  have "one_handle s1" using assms(1) by (simp add: s1_def one_handle_def unreleased_def pending_def)
  then have i2: "one_handle s2" by (simp add: s2_def one_handle_stop)
  have r2: "streamRef s2 = None" by (simp add: s2_def stopCamera_streamRef)
  have "pending s2 = pending s1" by (simp add: s2_def stopCamera_pending)
  then have p2: "pending s2 = 0" using assms(2) True by (simp add: s1_def pending_def)
  show ?thesis
  proof (cases "hasGetUserMedia s2")
    case False
    then have "world (startCamera_call p s) = startCamera_catch (ErrorObj ''TypeError'' undefined_read_message) s2"
      using True by (simp add: startCamera_call_def startCamera_try_def getUserMedia_def try_catch_def s1_def s2_def Let_def)
    then show ?thesis using i2
      by (simp add: startCamera_catch_def Let_def one_handle_def unreleased_def pending_def)
  next
    case h: True
    then have "world (startCamera_call p s) = s2\<lparr>calls := calls s2 @ [Constraints (Some 640) (Some 480) (Some (facingMode p)) None]\<rparr>"
      using True by (simp add: startCamera_call_def startCamera_try_def getUserMedia_def try_catch_def s1_def s2_def Let_def)
    then show ?thesis using i2 r2 p2
      by (simp add: one_handle_def unreleased_def pending_def)
  qed
qed

lemma one_handle_settle:
  assumes "one_handle s" and "0 < pending s"
  shows "one_handle (world (startCamera_settle out s))"
proof (cases out)
  case Granted
  from assms have r: "streamRef s = None" and u: "unreleased s = []"
    and b: "\<forall>m \<in> set (released s). sid m < opened s" and d: "distinct (released s)"
    and p: "pending s \<le> 1"
    by (auto simp: one_handle_def)
  define s1 where "s1 = s\<lparr>opened := Suc (opened s)\<rparr>"
  have u1: "unreleased s1 = [MediaStream (opened s)]"
    using unreleased_opened [OF b] u by (simp add: s1_def)
  have w: "world (startCamera_settle out s) =
      s1\<lparr>settled := Suc (settled s), streamRef := Some (MediaStream (opened s)),
          stream := Some (MediaStream (opened s)), isLoading := False, isReady := True\<rparr>"
    by (simp add: Granted startCamera_settle_def startCamera_try_rest_def settle_def try_catch_def s1_def)
  have "unreleased (world (startCamera_settle out s)) = [MediaStream (opened s)]"
    using u1 by (simp add: w unreleased_def)
  then show ?thesis using b d p assms(2)
    by (auto simp: one_handle_def w s1_def pending_def)
next
  case (Rejected e)
  have "world (startCamera_settle out s) = startCamera_catch e (s\<lparr>settled := Suc (settled s)\<rparr>)"
    by (simp add: Rejected startCamera_settle_def startCamera_try_rest_def settle_def try_catch_def)
  then show ?thesis using assms
    by (cases e) (auto simp: startCamera_catch_def Let_def one_handle_def unreleased_def pending_def)
qed

lemma one_handle_step:
  assumes "one_handle s" and "starts_acquisition e \<Longrightarrow> pending s = 0"
  shows "one_handle (step e s)"
proof (cases e)
  case (CallStart p)
  with assms show ?thesis by (simp add: step_def starts_acquisition_def one_handle_call)
next
  case CallStop
  with assms show ?thesis by (simp add: step_def one_handle_stop)
next
  case (Settle out)
  with assms show ?thesis by (simp add: step_def one_handle_settle)
qed

lemma one_handle_run: "one_handle s \<Longrightarrow> overlap_free step es s \<Longrightarrow> one_handle (run es s)"
proof (induction es arbitrary: s)
  case Nil
  then show ?case by simp
next
  case (Cons e es)
  from Cons.prems have "one_handle (step e s)" by (auto intro: one_handle_step split: if_splits)
  with Cons show ?case by simp
qed

lemma one_handle_mounted: "one_handle (mounted b fm)"
  by (simp add: one_handle_def mounted_def unreleased_def pending_def)

lemma released_count:
  assumes "distinct (released s)" and "\<forall>m \<in> set (released s). sid m < opened s"
  shows "length (released s) + length (unreleased s) = opened s"
proof -
  let ?all = "map MediaStream [0..<opened s]"
  have d: "distinct ?all" by (simp add: distinct_map inj_on_def)
  have "set (filter (\<lambda>m. m \<in> set (released s)) ?all) = set (released s)"
  proof -
    have "\<And>m. m \<in> set (released s) \<Longrightarrow> m \<in> set ?all"
    proof -
      fix m assume "m \<in> set (released s)"
      with assms(2) have "sid m < opened s" by blast
      then show "m \<in> set ?all" by (cases m) auto
    qed
    then show ?thesis by auto
  qed
  moreover have "distinct (filter (\<lambda>m. m \<in> set (released s)) ?all)" using d by (rule distinct_filter)
  ultimately have "length (filter (\<lambda>m. m \<in> set (released s)) ?all) = length (released s)"
    using assms(1) by (metis distinct_card)
  moreover have "length (filter (\<lambda>m. m \<in> set (released s)) ?all) + length (filter (\<lambda>m. m \<notin> set (released s)) ?all) = length ?all"
    by (rule sum_length_filter_compl)
  ultimately show ?thesis by (simp add: unreleased_def)
qed


lemma release_ref:
  assumes "one_handle_p1 s" and "streamRef s = Some m"
  shows "unreleased (stopTracks m s) = []"
proof -
  have "set (unreleased s) \<subseteq> {m}" using assms by (simp add: one_handle_p1_def)
  then have "filter (\<lambda>x. x \<noteq> m) (unreleased s) = []"
    by (auto simp: filter_empty_conv)
  then show ?thesis by (simp add: stopTracks_def unreleased_released)
qed

lemma one_handle_p1_stop: assumes "one_handle_p1 s" shows "one_handle_p1 (stopCamera_p1 s)"
proof (cases "streamRef s")
  case None
  then have "stopCamera_p1 s = s\<lparr>stream := None, isReady := False, isLoading := False\<rparr>"
    by (simp add: stopCamera_p1_def)
  with assms None show ?thesis by (simp add: one_handle_p1_def unreleased_def pending_def)
next
  case (Some m)
  then have e: "stopCamera_p1 s = (stopTracks m s)\<lparr>streamRef := None, stream := None, isReady := False, isLoading := False\<rparr>"
    by (simp add: stopCamera_p1_def)
  have "unreleased (stopTracks m s) = []" using assms Some by (rule release_ref)
  then have "unreleased (stopCamera_p1 s) = []" by (simp add: e unreleased_def)
  with assms Some show ?thesis by (simp add: e one_handle_p1_def pending_def stopTracks_def)
qed

lemma one_handle_p1_call_enabled:
  assumes "one_handle_p1 s" and "pending s = 0" and "enabled p"
    and s2: "s2 = (case streamRef s of Some m \<Rightarrow> stopTracks m s1 | None \<Rightarrow> s1)"
    and s1: "s1 = s\<lparr>error := [], isLoading := True\<rparr>"
  shows "one_handle_p1 s2 \<and> unreleased s2 = [] \<and> pending s2 = 0 \<and>
    world (startCamera_p1_call p s) =
      (if hasGetUserMedia s2
       then s2\<lparr>calls := calls s2 @ [Constraints (Some 640) (Some 480) (Some (facingMode p)) None]\<rparr>
       else startCamera_p1_catch (ErrorObj ''TypeError'' undefined_read_message) s2)"
proof -
  have i1: "one_handle_p1 s1" using assms(1) by (simp add: s1 one_handle_p1_def unreleased_def pending_def)
  have p1: "pending s1 = 0" using assms(2) by (simp add: s1 pending_def)
  have r1: "streamRef s1 = streamRef s" by (simp add: s1)
  show ?thesis
  proof (cases "streamRef s")
    case None
    then have e: "s2 = s1" by (simp add: s2)
    have "unreleased s1 = []" using i1 None r1 by (simp add: one_handle_p1_def)
    moreover have "world (startCamera_p1_call p s) =
      (if hasGetUserMedia s1
       then s1\<lparr>calls := calls s1 @ [Constraints (Some 640) (Some 480) (Some (facingMode p)) None]\<rparr>
       else startCamera_p1_catch (ErrorObj ''TypeError'' undefined_read_message) s1)"
      using assms(3) None
      by (simp add: startCamera_p1_call_def startCamera_p1_try_def getUserMedia_def try_catch_def s1 Let_def)
    ultimately show ?thesis using i1 p1 by (simp add: e)
  next
    case (Some m)
    then have e: "s2 = stopTracks m s1" by (simp add: s2)
    have u: "unreleased (stopTracks m s1) = []" using i1 Some r1 by (simp add: release_ref)
    have "one_handle_p1 (stopTracks m s1)" using i1 u Some r1
      by (auto simp: one_handle_p1_def stopTracks_def pending_def)
    moreover have "pending (stopTracks m s1) = 0" using p1 by (simp add: stopTracks_def pending_def)
    moreover have "world (startCamera_p1_call p s) =
      (if hasGetUserMedia (stopTracks m s1)
       then (stopTracks m s1)\<lparr>calls := calls (stopTracks m s1) @ [Constraints (Some 640) (Some 480) (Some (facingMode p)) None]\<rparr>
       else startCamera_p1_catch (ErrorObj ''TypeError'' undefined_read_message) (stopTracks m s1))"
      using assms(3) Some
      by (simp add: startCamera_p1_call_def startCamera_p1_try_def getUserMedia_def try_catch_def s1 Let_def)
    ultimately show ?thesis using u by (simp add: e)
  qed
qed

lemma one_handle_p1_call:
  assumes "one_handle_p1 s" and "enabled p \<Longrightarrow> pending s = 0"
  shows "one_handle_p1 (world (startCamera_p1_call p s))"
proof (cases "enabled p")
  case False
  with assms show ?thesis by (simp add: startCamera_p1_call_def one_handle_p1_stop)
next
  case True
  define s1 where "s1 = s\<lparr>error := [], isLoading := True\<rparr>"
  define s2 where "s2 = (case streamRef s of Some m \<Rightarrow> stopTracks m s1 | None \<Rightarrow> s1)"
  from assms True have z: "pending s = 0" by simp
  note f = one_handle_p1_call_enabled [OF assms(1) z True s2_def s1_def]
  show ?thesis
  proof (cases "hasGetUserMedia s2")
    case False
    with f have "world (startCamera_p1_call p s) = startCamera_p1_catch (ErrorObj ''TypeError'' undefined_read_message) s2"
      by simp
    then show ?thesis using f
      by (simp add: startCamera_p1_catch_def Let_def one_handle_p1_def unreleased_def pending_def)
  next
    case h: True
    with f have "world (startCamera_p1_call p s) = s2\<lparr>calls := calls s2 @ [Constraints (Some 640) (Some 480) (Some (facingMode p)) None]\<rparr>"
      by simp
    moreover from f have "one_handle_p1 s2" "unreleased s2 = []" "pending s2 = 0" by simp_all
    ultimately show ?thesis
      by (simp add: one_handle_p1_def unreleased_def pending_def)
  qed
qed

lemma one_handle_p1_settle:
  assumes "one_handle_p1 s" and "0 < pending s"
  shows "one_handle_p1 (world (startCamera_p1_settle out s))"
proof (cases out)
  case Granted
  from assms have u: "unreleased s = []"
    and b: "\<forall>m \<in> set (released s). sid m < opened s"
    and p: "pending s \<le> 1"
    by (auto simp: one_handle_p1_def)
  define s1 where "s1 = s\<lparr>opened := Suc (opened s)\<rparr>"
  have u1: "unreleased s1 = [MediaStream (opened s)]"
    using unreleased_opened [OF b] u by (simp add: s1_def)
  have w: "world (startCamera_p1_settle out s) =
      s1\<lparr>settled := Suc (settled s), streamRef := Some (MediaStream (opened s)),
          stream := Some (MediaStream (opened s)), isLoading := False, isReady := True,
          permissionGranted := Some True\<rparr>"
    by (simp add: Granted startCamera_p1_settle_def startCamera_p1_try_rest_def settle_def try_catch_def s1_def)
  have "unreleased (world (startCamera_p1_settle out s)) = [MediaStream (opened s)]"
    using u1 by (simp add: w unreleased_def)
  then show ?thesis using b p assms(2)
    by (auto simp: one_handle_p1_def w s1_def pending_def)
next
  case (Rejected e)
  have "world (startCamera_p1_settle out s) = startCamera_p1_catch e (s\<lparr>settled := Suc (settled s)\<rparr>)"
    by (simp add: Rejected startCamera_p1_settle_def startCamera_p1_try_rest_def settle_def try_catch_def)
  then show ?thesis using assms
    by (cases e) (auto simp: startCamera_p1_catch_def Let_def one_handle_p1_def unreleased_def pending_def)
qed

lemma one_handle_p1_effect:
  assumes "one_handle_p1 s" and "enabled p \<Longrightarrow> pending s = 0"
  shows "one_handle_p1 (effect_p1 p s)"
proof (cases "enabled p")
  case True
  with assms show ?thesis by (simp add: effect_p1_def one_handle_p1_call)
next
  case False
  have "one_handle_p1 (stopCamera_p1 s)" using assms(1) by (rule one_handle_p1_stop)
  then show ?thesis using False by (simp add: effect_p1_def one_handle_p1_def unreleased_def pending_def)
qed

lemma one_handle_p1_step:
  assumes "one_handle_p1 s" and "starts_acquisition e \<Longrightarrow> pending s = 0"
  shows "one_handle_p1 (step_p1 e s)"
proof (cases e)
  case (CallStart p)
  with assms show ?thesis by (simp add: step_p1_def starts_acquisition_def one_handle_p1_effect)
next
  case CallStop
  with assms show ?thesis by (simp add: step_p1_def one_handle_p1_stop)
next
  case (Settle out)
  with assms show ?thesis by (simp add: step_p1_def one_handle_p1_settle)
qed

lemma one_handle_p1_run: "one_handle_p1 s \<Longrightarrow> overlap_free step_p1 es s \<Longrightarrow> one_handle_p1 (run_p1 es s)"
proof (induction es arbitrary: s)
  case Nil
  then show ?case by simp
next
  case (Cons e es)
  from Cons.prems have "one_handle_p1 (step_p1 e s)" by (auto intro: one_handle_p1_step split: if_splits)
  with Cons show ?case by simp
qed

lemma one_handle_p1_mounted: "one_handle_p1 (mounted b fm)"
  by (simp add: one_handle_p1_def mounted_def unreleased_def pending_def)

lemma distinct_unreleased: "distinct (unreleased s)"
  by (simp add: unreleased_def distinct_map inj_on_def)

lemma one_handle_p1_at_most_one: assumes "one_handle_p1 s" shows "length (unreleased s) \<le> 1"
proof -
  have "card (set (unreleased s)) \<le> card (set_option (streamRef s))"
    using assms by (intro card_mono) (auto simp: one_handle_p1_def)
  also have "\<dots> \<le> 1" by (cases "streamRef s") auto
  finally show ?thesis by (simp add: distinct_card [OF distinct_unreleased])
qed

text \<open>
  C1, as stated, fails: the hooks have no guard on a continuation that arrives late. When
  \<^verbatim>\<open>startCamera\<close> is called for a new facing mode while the device-open call of the
  previous \<^verbatim>\<open>startCamera\<close> is still pending, both calls later succeed, the second
  stream overwrites the first in the ref, and the first is never released: two streams
  are open, two device-open calls were answered and no release was made.
\<close>

theorem overlapping_acquisitions_leave_two_open:
  "unreleased
     (run [CallStart \<lparr>enabled = True, facingMode = User\<rparr>,
           CallStart \<lparr>enabled = True, facingMode = Environment\<rparr>,
           Settle Granted, Settle Granted] (mounted True User))
     = [MediaStream 0, MediaStream 1] \<and>
   streamRef
     (run [CallStart \<lparr>enabled = True, facingMode = User\<rparr>,
           CallStart \<lparr>enabled = True, facingMode = Environment\<rparr>,
           Settle Granted, Settle Granted] (mounted True User))
     = Some (MediaStream 1) \<and>
   released
     (run [CallStart \<lparr>enabled = True, facingMode = User\<rparr>,
           CallStart \<lparr>enabled = True, facingMode = Environment\<rparr>,
           Settle Granted, Settle Granted] (mounted True User))
     = []"
  by code_simp

text \<open>
  C1, amended. For every sequence of calls and device answers in which no acquisition is
  started while a device-open request is still pending, at every moment at most one
  stream is open, and it is the one the hook holds. In the current hook every stream the
  device handed out is either that one or was released exactly once, so releases and
  opened streams match one to one; in part 001 the open streams are among the one the
  ref holds, and there is at most one.
\<close>

theorem one_open_handle_without_overlap:
  "(overlap_free step es (mounted b fm) \<longrightarrow>
      (let s = run es (mounted b fm)
       in unreleased s = (case streamRef s of None \<Rightarrow> [] | Some m \<Rightarrow> [m]) \<and>
          distinct (released s) \<and>
          length (released s) + length (unreleased s) = opened s)) \<and>
   (overlap_free step_p1 es (mounted b fm) \<longrightarrow>
      (let s = run_p1 es (mounted b fm)
       in length (unreleased s) \<le> 1 \<and> set (unreleased s) \<subseteq> set_option (streamRef s)))"
proof (intro conjI impI)
  assume "overlap_free step es (mounted b fm)"
  then have "one_handle (run es (mounted b fm))"
    by (simp add: one_handle_run one_handle_mounted)
  then show "let s = run es (mounted b fm)
       in unreleased s = (case streamRef s of None \<Rightarrow> [] | Some m \<Rightarrow> [m]) \<and>
          distinct (released s) \<and>
          length (released s) + length (unreleased s) = opened s"
    using released_count [of "run es (mounted b fm)"] by (simp add: Let_def one_handle_def)
next
  assume "overlap_free step_p1 es (mounted b fm)"
  then have i: "one_handle_p1 (run_p1 es (mounted b fm))"
    by (simp add: one_handle_p1_run one_handle_p1_mounted)
  then show "let s = run_p1 es (mounted b fm)
       in length (unreleased s) \<le> 1 \<and> set (unreleased s) \<subseteq> set_option (streamRef s)"
    using one_handle_p1_at_most_one [OF i] by (simp add: Let_def one_handle_p1_def)
qed

theorem one_open_handle_without_overlap_witness:
  "overlap_free step
     [CallStart \<lparr>enabled = True, facingMode = User\<rparr>, Settle Granted,
      CallStart \<lparr>enabled = True, facingMode = Environment\<rparr>, Settle Granted]
     (mounted True User) \<and>
   overlap_free step_p1
     [CallStart \<lparr>enabled = True, facingMode = User\<rparr>, Settle Granted,
      CallStart \<lparr>enabled = True, facingMode = Environment\<rparr>, Settle Granted]
     (mounted True User) \<and>
   (let s = run [CallStart \<lparr>enabled = True, facingMode = User\<rparr>, Settle Granted,
                 CallStart \<lparr>enabled = True, facingMode = Environment\<rparr>, Settle Granted]
              (mounted True User)
    in unreleased s = (case streamRef s of None \<Rightarrow> [] | Some m \<Rightarrow> [m]) \<and>
       distinct (released s) \<and>
       length (released s) + length (unreleased s) = opened s) \<and>
   (let s = run_p1 [CallStart \<lparr>enabled = True, facingMode = User\<rparr>, Settle Granted,
                    CallStart \<lparr>enabled = True, facingMode = Environment\<rparr>, Settle Granted]
              (mounted True User)
    in length (unreleased s) \<le> 1 \<and> set (unreleased s) \<subseteq> set_option (streamRef s))"
proof -
  have h: "overlap_free step
     [CallStart \<lparr>enabled = True, facingMode = User\<rparr>, Settle Granted,
      CallStart \<lparr>enabled = True, facingMode = Environment\<rparr>, Settle Granted]
     (mounted True User)"
    by code_simp
  have h1: "overlap_free step_p1
     [CallStart \<lparr>enabled = True, facingMode = User\<rparr>, Settle Granted,
      CallStart \<lparr>enabled = True, facingMode = Environment\<rparr>, Settle Granted]
     (mounted True User)"
    by code_simp
  show ?thesis
    using h h1
      one_open_handle_without_overlap
        [of "[CallStart \<lparr>enabled = True, facingMode = User\<rparr>, Settle Granted,
              CallStart \<lparr>enabled = True, facingMode = Environment\<rparr>, Settle Granted]"
            True User]
    by blast
qed

subsection \<open>A success that arrives late\<close>

text \<open>
  C2, as stated, fails: \<^verbatim>\<open>startCamera\<close> is called while enabled, then called again
  after \<^verbatim>\<open>enabled\<close> became false (which stops the camera), and then the pending
  device-open call succeeds. Its stream is installed and not released: the hook reports
  ready with that handle although it is disabled.
\<close>

theorem late_success_is_installed_after_disable:
  "isReady
     (run [CallStart \<lparr>enabled = True, facingMode = User\<rparr>,
           CallStart \<lparr>enabled = False, facingMode = User\<rparr>,
           Settle Granted] (mounted True User)) \<and>
   stream
     (run [CallStart \<lparr>enabled = True, facingMode = User\<rparr>,
           CallStart \<lparr>enabled = False, facingMode = User\<rparr>,
           Settle Granted] (mounted True User))
     = Some (MediaStream 0) \<and>
   released
     (run [CallStart \<lparr>enabled = True, facingMode = User\<rparr>,
           CallStart \<lparr>enabled = False, facingMode = User\<rparr>,
           Settle Granted] (mounted True User))
     = []"
  by code_simp

text \<open>
  C2, amended. Whatever happened while the device-open call was pending (a disable, a new
  facing mode, nothing), when the call resolves successfully the continuation installs
  the stream it returns and marks the hook ready, and it releases nothing. This holds for
  \<^verbatim>\<open>startCamera\<close> of the current hook and for \<^verbatim>\<open>initializeCamera\<close> of part 000. The
  handle is then the one the hook holds: in the current hook a \<^verbatim>\<open>stopCamera\<close> or a
  \<^verbatim>\<open>startCamera\<close> call that follows directly releases exactly it, and in part 000 so
  does a \<^verbatim>\<open>stopCamera\<close> of a render that saw it. A further success that arrives
  before any such call takes its place in the ref and, again, releases nothing.
\<close>

theorem late_success_always_installed:
  "stream (world (startCamera_settle Granted s)) = Some (MediaStream (opened s)) \<and>
   streamRef (world (startCamera_settle Granted s)) = Some (MediaStream (opened s)) \<and>
   isReady (world (startCamera_settle Granted s)) \<and>
   \<not> isLoading (world (startCamera_settle Granted s)) \<and>
   released (world (startCamera_settle Granted s)) = released s \<and>
   stream (world (initializeCamera_p0_settle Granted s)) = Some (MediaStream (opened s)) \<and>
   isReady (world (initializeCamera_p0_settle Granted s)) \<and>
   \<not> isLoading (world (initializeCamera_p0_settle Granted s)) \<and>
   released (world (initializeCamera_p0_settle Granted s)) = released s \<and>
   released (stopCamera (world (startCamera_settle Granted s))) =
     released s @ [MediaStream (opened s)] \<and>
   released (world (startCamera_call p (world (startCamera_settle Granted s)))) =
     released s @ [MediaStream (opened s)] \<and>
   released (stopCamera_p0 (stream (world (initializeCamera_p0_settle Granted s)))
               (world (initializeCamera_p0_settle Granted s))) =
     released s @ [MediaStream (opened s)] \<and>
   streamRef (world (startCamera_settle Granted (world (startCamera_settle Granted s)))) =
     Some (MediaStream (Suc (opened s))) \<and>
   released (world (startCamera_settle Granted (world (startCamera_settle Granted s)))) =
     released s"
proof -
  have a: "world (startCamera_settle Granted s) =
      s\<lparr>opened := Suc (opened s), settled := Suc (settled s),
        streamRef := Some (MediaStream (opened s)), stream := Some (MediaStream (opened s)),
        isLoading := False, isReady := True\<rparr>"
    by (simp add: startCamera_settle_def startCamera_try_rest_def settle_def try_catch_def)
  have b: "stream (world (initializeCamera_p0_settle Granted s)) = Some (MediaStream (opened s))"
    "isReady (world (initializeCamera_p0_settle Granted s))"
    "\<not> isLoading (world (initializeCamera_p0_settle Granted s))"
    "released (world (initializeCamera_p0_settle Granted s)) = released s"
    by (simp_all add: initializeCamera_p0_settle_def initializeCamera_p0_try_rest_def
        settle_def try_catch_def clearTimeoutRef_def clearTimeout_def split: option.splits)
  have c: "released (stopCamera (world (startCamera_settle Granted s))) =
     released s @ [MediaStream (opened s)]"
    by (simp add: a stopCamera_def stopTracks_def)
  have d: "released (world (startCamera_call p (world (startCamera_settle Granted s)))) =
     released s @ [MediaStream (opened s)]"
    by (simp add: a startCamera_call_def startCamera_try_def getUserMedia_def try_catch_def
        stopCamera_def stopTracks_def startCamera_catch_def Let_def)
  have e: "released (stopCamera_p0 (stream (world (initializeCamera_p0_settle Granted s)))
               (world (initializeCamera_p0_settle Granted s))) =
     released s @ [MediaStream (opened s)]"
    by (simp add: b stopCamera_p0_def stopTracks_def clearTimeoutRef_def clearTimeout_def
        Let_def split: option.splits)
  have f: "streamRef (world (startCamera_settle Granted (world (startCamera_settle Granted s)))) =
       Some (MediaStream (Suc (opened s)))"
    "released (world (startCamera_settle Granted (world (startCamera_settle Granted s)))) =
       released s"
    by (simp_all add: startCamera_settle_def startCamera_try_rest_def settle_def try_catch_def)
  from a b c d e f show ?thesis by simp
qed

subsection \<open>The timer and a success after it\<close>

text \<open>
  C3, evaluated on part 000. The hook is enabled with the front camera and the device
  does not answer. At 3000 ms the timer fires: the hook is no longer loading and its
  message contains "taking too long". At 3500 ms the device-open call succeeds: the
  stream is installed and the hook is ready, but nothing clears the message the timer
  wrote, so the hook reports ready together with the timeout message, and the component
  that renders the hook still shows the error panel instead of the video.
\<close>

theorem late_success_keeps_timeout_message:
  "(let s1 = setEnabled_p0 \<lparr>enabled = True, facingMode = User\<rparr> None (mounted True User);
        s2 = advance 3000 s1;
        s3 = world (initializeCamera_p0_settle Granted (advance 3500 s2))
    in calls s1 = [Constraints (Some 320) (Some 240) (Some User) (Some False)] \<and>
       isLoading s1 \<and> pending s2 = 1 \<and>
       \<not> isLoading s2 \<and> \<not> isReady s2 \<and> stream s2 = None \<and>
       error s2 = timeout_message_p0 \<and> str_includes (error s2) ''taking too long'' \<and>
       WebcamCapture_view True s2 = CameraError False \<and>
       isReady s3 \<and> \<not> isLoading s3 \<and> stream s3 = Some (MediaStream 0) \<and>
       error s3 = timeout_message_p0 \<and> error s3 \<noteq> '''' \<and>
       WebcamCapture_view True s3 = CameraError False)"
  by code_simp

subsection \<open>The message recorded for a rejection\<close>

lemma startCamera_settle_rejected:
  "startCamera_settle (Rejected r) s =
     Returns (startCamera_catch r (s\<lparr>settled := Suc (settled s)\<rparr>))"
  by (simp add: startCamera_settle_def startCamera_try_rest_def settle_def try_catch_def)

lemma startCamera_catch_cells:
  "\<not> isLoading (startCamera_catch r s) \<and> \<not> isReady (startCamera_catch r s) \<and>
   stream (startCamera_catch r s) = stream s \<and>
   error (startCamera_catch r s) =
     (case r of
        ErrorObj n m \<Rightarrow>
          if n = ''NotAllowedError''
          then ''Camera access denied. Click \"Grant Permission\" below.''
          else if n = ''NotFoundError'' then ''No camera found on this device.''
          else ''Unable to access camera. Please try again.''
      | NonError \<Rightarrow> error s)"
  by (cases r) (simp_all add: startCamera_catch_def Let_def)

lemma initializeCamera_p2_settle_rejected:
  "initializeCamera_p2_settle (Rejected r) s =
     (Returns (initializeCamera_p2_catch r (s\<lparr>settled := Suc (settled s)\<rparr>)), None)"
  by (simp add: initializeCamera_p2_settle_def initializeCamera_p2_try_rest_def settle_def
      try_catch_def)

lemma clearTimeoutRef_cells [simp]:
  "stream (clearTimeoutRef s) = stream s" "isLoading (clearTimeoutRef s) = isLoading s"
  "isReady (clearTimeoutRef s) = isReady s" "released (clearTimeoutRef s) = released s"
  "error (clearTimeoutRef s) = error s" "calls (clearTimeoutRef s) = calls s"
  "hasGetUserMedia (clearTimeoutRef s) = hasGetUserMedia s"
  "opened (clearTimeoutRef s) = opened s" "settled (clearTimeoutRef s) = settled s"
  "timeoutRef (clearTimeoutRef s) = timeoutRef s"
  by (simp_all add: clearTimeoutRef_def clearTimeout_def split: option.splits)

lemma initializeCamera_p2_catch_cells:
  "\<not> isLoading (initializeCamera_p2_catch r s) \<and> \<not> isReady (initializeCamera_p2_catch r s) \<and>
   stream (initializeCamera_p2_catch r s) = stream s \<and>
   error (initializeCamera_p2_catch r s) =
     (case r of
        ErrorObj n m \<Rightarrow>
          if n = ''NotAllowedError''
          then ''Camera access denied. Please grant camera permission to continue.''
          else if n = ''NotFoundError'' then ''No camera found. Please connect a camera device.''
          else if n = ''NotReadableError''
          then ''Camera is already in use by another application. Please close other camera apps and try again.''
          else if n = ''OverconstrainedError''
          then ''Camera settings not supported. Please try switching cameras.''
          else if n = ''NotSupportedError'' then ''Camera not supported by this browser.''
          else m
      | NonError \<Rightarrow> ''Unable to access camera. Please check your permissions and try again.'')"
  by (cases r) (simp_all add: initializeCamera_p2_catch_def Let_def)

text \<open>
  C4, as stated, fails on the current hook: it has one message for every error that is
  neither a denial nor a missing device. A busy device (\<^verbatim>\<open>NotReadableError\<close>, reason
  DeviceBusy in the table) and an aborted start (\<^verbatim>\<open>AbortError\<close>, reason Unknown) leave
  the same message, so what the hook records does not tell the two reasons apart.
\<close>

theorem busy_and_unknown_share_a_message:
  "spec_reason (ErrorObj ''NotReadableError'' ''Device in use'') = DeviceBusy \<and>
   spec_reason (ErrorObj ''AbortError'' ''Starting videoinput failed'') = Unknown \<and>
   error (world (startCamera_settle (Rejected (ErrorObj ''NotReadableError'' ''Device in use''))
            (world (startCamera_call \<lparr>enabled = True, facingMode = User\<rparr> (mounted True User)))))
     = ''Unable to access camera. Please try again.'' \<and>
   error (world (startCamera_settle
                   (Rejected (ErrorObj ''AbortError'' ''Starting videoinput failed''))
            (world (startCamera_call \<lparr>enabled = True, facingMode = User\<rparr> (mounted True User)))))
     = ''Unable to access camera. Please try again.''"
  by code_simp

text \<open>
  C4, amended. The message recorded for a rejected device-open call is a function of the
  error alone, and every rejection ends the acquisition not loading and not ready. In the
  current hook a denial has its own message, a missing device has its own message, and
  every other \<^verbatim>\<open>Error\<close> (a busy device included) has one common message. In part 002 a
  denial, a missing device and a busy device each have their own message; among the
  others, unsupported constraints and an unsupported browser have their own and any
  further \<^verbatim>\<open>Error\<close> shows its own text.
\<close>

theorem rejection_message_table:
  "error (world (startCamera_settle (Rejected (ErrorObj n m)) s)) =
     (case spec_reason (ErrorObj n m) of
        PermissionDenied \<Rightarrow> ''Camera access denied. Click \"Grant Permission\" below.''
      | DeviceNotFound \<Rightarrow> ''No camera found on this device.''
      | _ \<Rightarrow> ''Unable to access camera. Please try again.'') \<and>
   \<not> isLoading (world (startCamera_settle (Rejected r) s)) \<and>
   \<not> isReady (world (startCamera_settle (Rejected r) s)) \<and>
   error (world (fst (initializeCamera_p2_settle (Rejected (ErrorObj n m)) s))) =
     (case spec_reason (ErrorObj n m) of
        PermissionDenied \<Rightarrow> ''Camera access denied. Please grant camera permission to continue.''
      | DeviceNotFound \<Rightarrow> ''No camera found. Please connect a camera device.''
      | DeviceBusy \<Rightarrow>
          ''Camera is already in use by another application. Please close other camera apps and try again.''
      | _ \<Rightarrow>
          if n = ''OverconstrainedError''
          then ''Camera settings not supported. Please try switching cameras.''
          else if n = ''NotSupportedError'' then ''Camera not supported by this browser.''
          else m) \<and>
   \<not> isLoading (world (fst (initializeCamera_p2_settle (Rejected r) s))) \<and>
   \<not> isReady (world (fst (initializeCamera_p2_settle (Rejected r) s)))"
  by (simp add: startCamera_settle_rejected startCamera_catch_cells
      initializeCamera_p2_settle_rejected initializeCamera_p2_catch_cells spec_reason_def)

subsection \<open>Enabling and disabling\<close>




lemma initializeCamera_p0_call_supported:
  assumes "enabled p" and "hasGetUserMedia s"
  shows "\<exists>s'. initializeCamera_p0_call p seen s = Awaits s' \<and>
     calls s' = calls s @ [Constraints (Some 320) (Some 240) (Some (facingMode p)) (Some False)] \<and>
     isLoading s' \<and> \<not> isReady s' \<and> error s' = [] \<and>
     stream s' = (case seen of None \<Rightarrow> stream s | Some m \<Rightarrow> None) \<and>
     released s' = released s @ (case seen of None \<Rightarrow> [] | Some m \<Rightarrow> [m]) \<and>
     timeoutRef s' = Some (Suc (timersCreated s)) \<and>
     (Suc (timersCreated s), now s + 3000, timeout_message_p0) \<in> set (timers s')"
  using assms
  by (simp add: initializeCamera_p0_call_def initializeCamera_p0_try_def try_catch_def
      getUserMedia_def setTimeout_def clearTimeoutRef_def clearTimeout_def stopTracks_def Let_def
      split: option.splits)

lemma startCamera_call_calls:
  "calls (world (startCamera_call p s)) =
     calls s @ (if enabled p \<and> hasGetUserMedia s
                then [Constraints (Some 640) (Some 480) (Some (facingMode p)) None] else [])"
  by (simp add: startCamera_call_def startCamera_try_def getUserMedia_def try_catch_def
      stopCamera_def stopTracks_def startCamera_catch_def Let_def split: option.splits)

lemma startCamera_call_released:
  "released (world (startCamera_call p s)) =
     released s @ (case streamRef s of None \<Rightarrow> [] | Some m \<Rightarrow> [m])"
  by (simp add: startCamera_call_def startCamera_try_def getUserMedia_def try_catch_def
      stopCamera_def stopTracks_def startCamera_catch_def Let_def split: option.splits)






subsection \<open>The retry path\<close>

lemma requestPermission_call_supported:
  "hasGetUserMedia s \<Longrightarrow>
   requestPermission_call s =
     Awaits (s\<lparr>error := [], calls := calls s @ [Constraints None None None None]\<rparr>)"
  by (simp add: requestPermission_call_def requestPermission_try_def getUserMedia_def
      try_catch_def)

lemma requestPermission_settle_rejected:
  "requestPermission_settle p0 (Rejected e) s =
     Returns (s\<lparr>settled := Suc (settled s),
                 error := ''Camera permission denied. Please allow camera access.''\<rparr>)"
  by (simp add: requestPermission_settle_def requestPermission_try_rest_def settle_def
      try_catch_def requestPermission_catch_def)

lemma requestPermission_settle_granted:
  "\<exists>s'. requestPermission_settle p0 Granted s = Returns s' \<and>
     calls s' = calls s @ (if enabled p0 \<and> hasGetUserMedia s
                then [Constraints (Some 640) (Some 480) (Some (facingMode p0)) None] else []) \<and>
     released s' = released s @ [MediaStream (opened s)] @
        (case streamRef s of None \<Rightarrow> [] | Some m \<Rightarrow> [m])"
  by (simp add: requestPermission_settle_def requestPermission_try_rest_def settle_def
      try_catch_def startCamera_call_calls startCamera_call_released stopTracks_def)

lemma requestPermission_p3_call_supported:
  "hasGetUserMedia s \<Longrightarrow>
   requestPermission_p3_call s =
     Awaits (s\<lparr>error := [], isLoading := True,
               calls := calls s @ [Constraints None None (Some User) None]\<rparr>)"
  by (simp add: requestPermission_p3_call_def requestPermission_p3_try_def getUserMedia_def
      try_catch_def)

lemma requestPermission_p3_settle_rejected:
  "\<exists>s'. requestPermission_p3_settle p0 g0 (Rejected e) s = Returns s' \<and> calls s' = calls s \<and>
     permissionGranted s' = Some False \<and> \<not> isLoading s'"
  by (cases e)
     (simp_all add: requestPermission_p3_settle_def requestPermission_p3_try_rest_def settle_def
      try_catch_def requestPermission_p3_catch_def Let_def)

lemma startCamera_p3_call_calls:
  "calls (world (startCamera_p3_call p g s)) =
     calls s @ (if enabled p \<and> g \<noteq> Some False \<and> hasGetUserMedia s
                then [Constraints (Some 640) (Some 480) (Some (facingMode p)) None] else [])"
  by (simp add: startCamera_p3_call_def startCamera_p3_try_def getUserMedia_def try_catch_def
      stopCamera_p3_def stopTracks_def startCamera_p3_catch_def Let_def split: option.splits)

lemma try_catch_not_throws: "try_catch c h \<noteq> Throws e s"
  by (cases c) (simp_all add: try_catch_def)

lemma try_catch_id:
  assumes "\<And>e s'. c \<noteq> Throws e s'"
  shows "try_catch c h = c"
  using assms by (cases c) (auto simp: try_catch_def)

lemma startCamera_p3_call_not_throws: "startCamera_p3_call p g s \<noteq> Throws e s'"
  by (simp add: startCamera_p3_call_def try_catch_not_throws)

lemma requestPermission_p3_settle_granted:
  "calls (world (requestPermission_p3_settle p0 g0 Granted s)) =
     calls s @ (if enabled p0 \<and> g0 \<noteq> Some False \<and> hasGetUserMedia s
                then [Constraints (Some 640) (Some 480) (Some (facingMode p0)) None] else [])"
  by (simp add: requestPermission_p3_settle_def requestPermission_p3_try_rest_def settle_def
      try_catch_id [OF startCamera_p3_call_not_throws] startCamera_p3_call_calls stopTracks_def)

text \<open>
  C6, as stated, fails on the current hook. The acquisition is denied; then
  \<^verbatim>\<open>requestPermission\<close> is called and the user grants access. The function first opens a
  probe stream (\<^verbatim>\<open>video: true\<close>), stops it, and then calls \<^verbatim>\<open>startCamera\<close>, which opens
  the camera again: two device-open calls for one \<^verbatim>\<open>requestPermission\<close>.
\<close>

theorem requestPermission_opens_twice_when_granted:
  "error (run [CallStart \<lparr>enabled = True, facingMode = User\<rparr>,
               Settle (Rejected (ErrorObj ''NotAllowedError'' ''Permission denied''))]
            (mounted True User))
     = ''Camera access denied. Click \"Grant Permission\" below.'' \<and>
   calls (world (requestPermission_settle \<lparr>enabled = True, facingMode = User\<rparr> Granted
        (world (requestPermission_call
           (run [CallStart \<lparr>enabled = True, facingMode = User\<rparr>,
                 Settle (Rejected (ErrorObj ''NotAllowedError'' ''Permission denied''))]
              (mounted True User))))))
     = calls (run [CallStart \<lparr>enabled = True, facingMode = User\<rparr>,
                   Settle (Rejected (ErrorObj ''NotAllowedError'' ''Permission denied''))]
                (mounted True User))
       @ [Constraints None None None None, Constraints (Some 640) (Some 480) (Some User) None]"
  by code_simp

text \<open>
  C6, amended. Where the device capability exists, one call to \<^verbatim>\<open>requestPermission\<close>
  issues one probing device-open call. If the probe is rejected no further call is made.
  If it is granted, the probe stream is released at once and \<^verbatim>\<open>startCamera\<close> of the first
  render is called, which issues one further device-open call when that render was
  enabled (in part 003: and had not seen the permission denied). So one
  \<^verbatim>\<open>requestPermission\<close> makes one device-open call when access is refused again and two
  when it is granted. In part 001 \<^verbatim>\<open>requestPermission\<close> is \<^verbatim>\<open>startCamera\<close> and issues
  exactly one call when enabled.
\<close>

theorem requestPermission_probe_then_acquisition:
  "hasGetUserMedia s \<longrightarrow>
     calls (world (requestPermission_call s)) = calls s @ [Constraints None None None None] \<and>
     calls (world (requestPermission_settle p0 (Rejected e) s)) = calls s \<and>
     calls (world (requestPermission_settle p0 Granted s)) =
       calls s @ (if enabled p0
                  then [Constraints (Some 640) (Some 480) (Some (facingMode p0)) None] else []) \<and>
     MediaStream (opened s) \<in> set (released (world (requestPermission_settle p0 Granted s))) \<and>
     calls (world (requestPermission_p3_call s)) =
       calls s @ [Constraints None None (Some User) None] \<and>
     calls (world (requestPermission_p3_settle p0 g0 (Rejected e) s)) = calls s \<and>
     calls (world (requestPermission_p3_settle p0 g0 Granted s)) =
       calls s @ (if enabled p0 \<and> g0 \<noteq> Some False
                  then [Constraints (Some 640) (Some 480) (Some (facingMode p0)) None] else []) \<and>
     calls (requestPermission_p1 p0 s) =
       calls s @ (if enabled p0
                  then [Constraints (Some 640) (Some 480) (Some (facingMode p0)) None] else [])"
proof
  assume h: "hasGetUserMedia s"
  obtain s1 where g: "requestPermission_settle p0 Granted s = Returns s1"
    "calls s1 = calls s @ (if enabled p0 \<and> hasGetUserMedia s
                then [Constraints (Some 640) (Some 480) (Some (facingMode p0)) None] else [])"
    "released s1 = released s @ [MediaStream (opened s)] @
        (case streamRef s of None \<Rightarrow> [] | Some m \<Rightarrow> [m])"
    using requestPermission_settle_granted [of p0 s] by blast
  obtain s3 where r3: "requestPermission_p3_settle p0 g0 (Rejected e) s = Returns s3"
    "calls s3 = calls s"
    using requestPermission_p3_settle_rejected [of p0 g0 e s] by blast
  have c1: "calls (world (requestPermission_call s)) = calls s @ [Constraints None None None None]"
    using h by (simp add: requestPermission_call_supported)
  have c2: "calls (world (requestPermission_settle p0 (Rejected e) s)) = calls s"
    by (simp add: requestPermission_settle_rejected)
  have c3: "calls (world (requestPermission_settle p0 Granted s)) =
       calls s @ (if enabled p0
                  then [Constraints (Some 640) (Some 480) (Some (facingMode p0)) None] else [])"
    using g h by simp
  have c4: "MediaStream (opened s) \<in> set (released (world (requestPermission_settle p0 Granted s)))"
    using g by simp
  have c5: "calls (world (requestPermission_p3_call s)) =
       calls s @ [Constraints None None (Some User) None]"
    using h by (simp add: requestPermission_p3_call_supported)
  have c6: "calls (world (requestPermission_p3_settle p0 g0 (Rejected e) s)) = calls s"
    using r3 by simp
  have c7: "calls (world (requestPermission_p3_settle p0 g0 Granted s)) =
       calls s @ (if enabled p0 \<and> g0 \<noteq> Some False
                  then [Constraints (Some 640) (Some 480) (Some (facingMode p0)) None] else [])"
    using h by (simp add: requestPermission_p3_settle_granted)
  have c8: "calls (requestPermission_p1 p0 s) =
       calls s @ (if enabled p0
                  then [Constraints (Some 640) (Some 480) (Some (facingMode p0)) None] else [])"
    using h
    by (simp add: requestPermission_p1_def startCamera_p1_call_def startCamera_p1_try_def
        getUserMedia_def try_catch_def stopCamera_p1_def stopTracks_def Let_def
        split: option.splits)
  from c1 c2 c3 c4 c5 c6 c7 c8
  show "calls (world (requestPermission_call s)) = calls s @ [Constraints None None None None] \<and>
     calls (world (requestPermission_settle p0 (Rejected e) s)) = calls s \<and>
     calls (world (requestPermission_settle p0 Granted s)) =
       calls s @ (if enabled p0
                  then [Constraints (Some 640) (Some 480) (Some (facingMode p0)) None] else []) \<and>
     MediaStream (opened s) \<in> set (released (world (requestPermission_settle p0 Granted s))) \<and>
     calls (world (requestPermission_p3_call s)) =
       calls s @ [Constraints None None (Some User) None] \<and>
     calls (world (requestPermission_p3_settle p0 g0 (Rejected e) s)) = calls s \<and>
     calls (world (requestPermission_p3_settle p0 g0 Granted s)) =
       calls s @ (if enabled p0 \<and> g0 \<noteq> Some False
                  then [Constraints (Some 640) (Some 480) (Some (facingMode p0)) None] else []) \<and>
     calls (requestPermission_p1 p0 s) =
       calls s @ (if enabled p0
                  then [Constraints (Some 640) (Some 480) (Some (facingMode p0)) None] else [])"
    by blast
qed

theorem requestPermission_probe_then_acquisition_witness:
  "hasGetUserMedia (mounted True User) \<and>
   calls (world (requestPermission_call (mounted True User))) = [Constraints None None None None] \<and>
   calls (world (requestPermission_settle \<lparr>enabled = True, facingMode = User\<rparr>
            (Rejected (ErrorObj ''NotAllowedError'' ''Permission denied'')) (mounted True User)))
     = [] \<and>
   calls (world (requestPermission_settle \<lparr>enabled = True, facingMode = User\<rparr> Granted
            (mounted True User)))
     = [Constraints (Some 640) (Some 480) (Some User) None] \<and>
   calls (world (requestPermission_p3_settle \<lparr>enabled = True, facingMode = User\<rparr> None Granted
            (mounted True User)))
     = [Constraints (Some 640) (Some 480) (Some User) None]"
  using
    requestPermission_probe_then_acquisition
      [of "mounted True User" "\<lparr>enabled = True, facingMode = User\<rparr>"
          "ErrorObj ''NotAllowedError'' ''Permission denied''" None]
  by (simp add: mounted_def)

subsection \<open>Changing the facing mode\<close>

lemma effect_facingMode_p0_idle:
  "\<not> (enabled p \<and> stream s \<noteq> None) \<Longrightarrow> effect_facingMode_p0 p s = s"
  by (auto simp: effect_facingMode_p0_def)

lemma effect_facingMode_p0_ready:
  assumes "enabled p" and "stream s = Some m" and "hasGetUserMedia s"
  shows "calls (effect_facingMode_p0 p s) =
       calls s @ [Constraints (Some 320) (Some 240) (Some (facingMode p)) (Some False)] \<and>
     released (effect_facingMode_p0 p s) = released s @ [m] \<and>
     stream (effect_facingMode_p0 p s) = None \<and>
     \<not> isReady (effect_facingMode_p0 p s) \<and> isLoading (effect_facingMode_p0 p s)"
proof -
  obtain s' where "initializeCamera_p0_call p (Some m) s = Awaits s'"
     and "calls s' =
            calls s @ [Constraints (Some 320) (Some 240) (Some (facingMode p)) (Some False)]"
     and "isLoading s'" and "\<not> isReady s'" and "stream s' = None"
     and "released s' = released s @ [m]"
    using initializeCamera_p0_call_supported [OF assms(1) assms(3), of "Some m"] by auto
  then show ?thesis using assms by (simp add: effect_facingMode_p0_def)
qed

lemma startCamera_p1_call_calls:
  "calls (world (startCamera_p1_call p s)) =
     calls s @ (if enabled p \<and> hasGetUserMedia s
                then [Constraints (Some 640) (Some 480) (Some (facingMode p)) None] else [])"
  by (simp add: startCamera_p1_call_def startCamera_p1_try_def getUserMedia_def try_catch_def
      stopCamera_p1_def stopTracks_def startCamera_p1_catch_def Let_def split: option.splits)

lemma startCamera_p1_call_released:
  "released (world (startCamera_p1_call p s)) =
     released s @ (case streamRef s of None \<Rightarrow> [] | Some m \<Rightarrow> [m])"
  by (simp add: startCamera_p1_call_def startCamera_p1_try_def getUserMedia_def try_catch_def
      stopCamera_p1_def stopTracks_def startCamera_p1_catch_def Let_def split: option.splits)

lemma effect_p1_enabled:
  "enabled p \<Longrightarrow>
   calls (effect_p1 p s) =
     calls s @ (if hasGetUserMedia s
                then [Constraints (Some 640) (Some 480) (Some (facingMode p)) None] else []) \<and>
   released (effect_p1 p s) = released s @ (case streamRef s of None \<Rightarrow> [] | Some m \<Rightarrow> [m])"
  by (simp add: effect_p1_def startCamera_p1_call_calls startCamera_p1_call_released)

lemma startCamera_p3_call_released:
  "released (world (startCamera_p3_call p g s)) =
     released s @ (if \<not> enabled p \<or> g \<noteq> Some False
                   then (case streamRef s of None \<Rightarrow> [] | Some m \<Rightarrow> [m]) else [])"
  by (simp add: startCamera_p3_call_def startCamera_p3_try_def getUserMedia_def try_catch_def
      stopCamera_p3_def stopTracks_def startCamera_p3_catch_def Let_def split: option.splits)

lemma effect_facingMode_p3_idle:
  "\<not> (enabled p \<and> permissionGranted s = Some True \<and> \<not> isLoading s) \<Longrightarrow>
   effect_facingMode_p3 p s = s"
  by (auto simp: effect_facingMode_p3_def)

lemma effect_facingMode_p3_active:
  "enabled p \<Longrightarrow> permissionGranted s = Some True \<Longrightarrow> \<not> isLoading s \<Longrightarrow>
   calls (effect_facingMode_p3 p s) =
     calls s @ (if hasGetUserMedia s
                then [Constraints (Some 640) (Some 480) (Some (facingMode p)) None] else []) \<and>
   released (effect_facingMode_p3 p s) =
     released s @ (case streamRef s of None \<Rightarrow> [] | Some m \<Rightarrow> [m])"
  by (simp add: effect_facingMode_p3_def startCamera_p3_call_calls startCamera_p3_call_released)

text \<open>
  C7, as stated, fails on part 001: its effect depends on the facing mode and calls
  \<^verbatim>\<open>startCamera\<close> whenever the hook is enabled. After a failed acquisition (no camera
  found: not ready, no stream, a message) a change of the facing mode clears the message
  and issues a new device-open call.
\<close>

theorem preference_change_restarts_failed_session:
  "error (run_p1 [CallStart \<lparr>enabled = True, facingMode = User\<rparr>,
                  Settle (Rejected (ErrorObj ''NotFoundError'' ''Requested device not found''))]
            (mounted True User)) = ''No camera found on this device.'' \<and>
   \<not> isReady (run_p1 [CallStart \<lparr>enabled = True, facingMode = User\<rparr>,
                  Settle (Rejected (ErrorObj ''NotFoundError'' ''Requested device not found''))]
            (mounted True User)) \<and>
   stream (run_p1 [CallStart \<lparr>enabled = True, facingMode = User\<rparr>,
                  Settle (Rejected (ErrorObj ''NotFoundError'' ''Requested device not found''))]
            (mounted True User)) = None \<and>
   calls (effect_p1 \<lparr>enabled = True, facingMode = Environment\<rparr>
           (run_p1 [CallStart \<lparr>enabled = True, facingMode = User\<rparr>,
                  Settle (Rejected (ErrorObj ''NotFoundError'' ''Requested device not found''))]
            (mounted True User)))
     = [Constraints (Some 640) (Some 480) (Some User) None,
        Constraints (Some 640) (Some 480) (Some Environment) None] \<and>
   isLoading (effect_p1 \<lparr>enabled = True, facingMode = Environment\<rparr>
           (run_p1 [CallStart \<lparr>enabled = True, facingMode = User\<rparr>,
                  Settle (Rejected (ErrorObj ''NotFoundError'' ''Requested device not found''))]
            (mounted True User))) \<and>
   error (effect_p1 \<lparr>enabled = True, facingMode = Environment\<rparr>
           (run_p1 [CallStart \<lparr>enabled = True, facingMode = User\<rparr>,
                  Settle (Rejected (ErrorObj ''NotFoundError'' ''Requested device not found''))]
            (mounted True User))) = []"
  by code_simp

text \<open>
  C7, amended. What a change of the facing mode does depends on the revision. In part 000
  it acts exactly when the hook is enabled and holds a stream: the stream is released and
  (where the device capability exists) one device-open call with the new facing mode is
  issued; otherwise nothing changes. In part 001 it starts a new acquisition with the new
  facing mode whenever the hook is enabled, whatever its state, after stopping the tracks
  of the stream in the ref. In part 003 it acts exactly when the hook is enabled, the
  permission is known to be granted and the hook is not loading; otherwise nothing
  changes.
\<close>

theorem facing_mode_change_by_revision:
  "(\<not> (enabled p \<and> stream s \<noteq> None) \<longrightarrow> effect_facingMode_p0 p s = s) \<and>
   (enabled p \<and> stream s = Some m \<and> hasGetUserMedia s \<longrightarrow>
      calls (effect_facingMode_p0 p s) =
        calls s @ [Constraints (Some 320) (Some 240) (Some (facingMode p)) (Some False)] \<and>
      released (effect_facingMode_p0 p s) = released s @ [m] \<and>
      stream (effect_facingMode_p0 p s) = None \<and>
      \<not> isReady (effect_facingMode_p0 p s) \<and> isLoading (effect_facingMode_p0 p s)) \<and>
   (enabled p \<and> hasGetUserMedia s \<longrightarrow>
      calls (effect_p1 p s) =
        calls s @ [Constraints (Some 640) (Some 480) (Some (facingMode p)) None] \<and>
      released (effect_p1 p s) =
        released s @ (case streamRef s of None \<Rightarrow> [] | Some m \<Rightarrow> [m])) \<and>
   (\<not> (enabled p \<and> permissionGranted s = Some True \<and> \<not> isLoading s) \<longrightarrow>
      effect_facingMode_p3 p s = s) \<and>
   (enabled p \<and> permissionGranted s = Some True \<and> \<not> isLoading s \<and> hasGetUserMedia s \<longrightarrow>
      calls (effect_facingMode_p3 p s) =
        calls s @ [Constraints (Some 640) (Some 480) (Some (facingMode p)) None] \<and>
      released (effect_facingMode_p3 p s) =
        released s @ (case streamRef s of None \<Rightarrow> [] | Some m \<Rightarrow> [m]))"
proof (intro conjI impI)
  assume "\<not> (enabled p \<and> stream s \<noteq> None)"
  then show "effect_facingMode_p0 p s = s" by (rule effect_facingMode_p0_idle)
next
  assume a: "enabled p \<and> stream s = Some m \<and> hasGetUserMedia s"
  then have r: "calls (effect_facingMode_p0 p s) =
       calls s @ [Constraints (Some 320) (Some 240) (Some (facingMode p)) (Some False)] \<and>
     released (effect_facingMode_p0 p s) = released s @ [m] \<and>
     stream (effect_facingMode_p0 p s) = None \<and>
     \<not> isReady (effect_facingMode_p0 p s) \<and> isLoading (effect_facingMode_p0 p s)"
    by (simp add: effect_facingMode_p0_ready)
  from r show "calls (effect_facingMode_p0 p s) =
       calls s @ [Constraints (Some 320) (Some 240) (Some (facingMode p)) (Some False)]" by simp
  from r show "released (effect_facingMode_p0 p s) = released s @ [m]" by simp
  from r show "stream (effect_facingMode_p0 p s) = None" by simp
  from r show "\<not> isReady (effect_facingMode_p0 p s)" by simp
  from r show "isLoading (effect_facingMode_p0 p s)" by simp
next
  assume a: "enabled p \<and> hasGetUserMedia s"
  then show "calls (effect_p1 p s) =
        calls s @ [Constraints (Some 640) (Some 480) (Some (facingMode p)) None]"
    by (simp add: effect_p1_enabled)
  from a show "released (effect_p1 p s) =
        released s @ (case streamRef s of None \<Rightarrow> [] | Some m \<Rightarrow> [m])"
    by (simp add: effect_p1_enabled)
next
  assume "\<not> (enabled p \<and> permissionGranted s = Some True \<and> \<not> isLoading s)"
  then show "effect_facingMode_p3 p s = s" by (rule effect_facingMode_p3_idle)
next
  assume a: "enabled p \<and> permissionGranted s = Some True \<and> \<not> isLoading s \<and> hasGetUserMedia s"
  then show "calls (effect_facingMode_p3 p s) =
        calls s @ [Constraints (Some 640) (Some 480) (Some (facingMode p)) None]"
    by (simp add: effect_facingMode_p3_active)
  from a show "released (effect_facingMode_p3 p s) =
        released s @ (case streamRef s of None \<Rightarrow> [] | Some m \<Rightarrow> [m])"
    by (simp add: effect_facingMode_p3_active)
qed

theorem facing_mode_change_by_revision_witness:
  "\<not> (enabled \<lparr>enabled = False, facingMode = Environment\<rparr> \<and> stream (mounted True User) \<noteq> None) \<and>
   effect_facingMode_p0 \<lparr>enabled = False, facingMode = Environment\<rparr> (mounted True User)
     = mounted True User \<and>
   enabled \<lparr>enabled = True, facingMode = Environment\<rparr> \<and>
   stream (world (initializeCamera_p0_settle Granted
             (world (initializeCamera_p0_call \<lparr>enabled = True, facingMode = User\<rparr> None
                (mounted True User)))))
     = Some (MediaStream 0) \<and>
   hasGetUserMedia (world (initializeCamera_p0_settle Granted
             (world (initializeCamera_p0_call \<lparr>enabled = True, facingMode = User\<rparr> None
                (mounted True User))))) \<and>
   released (effect_facingMode_p0 \<lparr>enabled = True, facingMode = Environment\<rparr>
      (world (initializeCamera_p0_settle Granted
             (world (initializeCamera_p0_call \<lparr>enabled = True, facingMode = User\<rparr> None
                (mounted True User))))))
     = released (world (initializeCamera_p0_settle Granted
             (world (initializeCamera_p0_call \<lparr>enabled = True, facingMode = User\<rparr> None
                (mounted True User))))) @ [MediaStream 0] \<and>
   hasGetUserMedia (mounted True User) \<and>
   calls (effect_p1 \<lparr>enabled = True, facingMode = Environment\<rparr> (mounted True User))
     = calls (mounted True User) @ [Constraints (Some 640) (Some 480) (Some Environment) None] \<and>
   effect_facingMode_p3 \<lparr>enabled = True, facingMode = Environment\<rparr> (mounted True User)
     = mounted True User \<and>
   permissionGranted (world (startCamera_p3_settle Granted
             (world (startCamera_p3_call \<lparr>enabled = True, facingMode = User\<rparr> None
                (mounted True User)))))
     = Some True \<and>
   calls (effect_facingMode_p3 \<lparr>enabled = True, facingMode = Environment\<rparr>
      (world (startCamera_p3_settle Granted
             (world (startCamera_p3_call \<lparr>enabled = True, facingMode = User\<rparr> None
                (mounted True User))))))
     = calls (world (startCamera_p3_settle Granted
             (world (startCamera_p3_call \<lparr>enabled = True, facingMode = User\<rparr> None
                (mounted True User)))))
       @ [Constraints (Some 640) (Some 480) (Some Environment) None]"
proof -
  let ?off = "\<lparr>enabled = False, facingMode = Environment\<rparr>"
  let ?env = "\<lparr>enabled = True, facingMode = Environment\<rparr>"
  let ?s0 = "mounted True User"
  let ?r0 = "world (initializeCamera_p0_settle Granted
             (world (initializeCamera_p0_call \<lparr>enabled = True, facingMode = User\<rparr> None
                (mounted True User))))"
  let ?r3 = "world (startCamera_p3_settle Granted
             (world (startCamera_p3_call \<lparr>enabled = True, facingMode = User\<rparr> None
                (mounted True User))))"
  have h0: "\<not> (enabled ?off \<and> stream ?s0 \<noteq> None)" by simp
  have e: "enabled ?env" by simp
  have h1: "stream ?r0 = Some (MediaStream 0)" by code_simp
  have h2: "hasGetUserMedia ?r0" by code_simp
  have h3: "hasGetUserMedia ?s0" by (simp add: mounted_def)
  have h4: "\<not> (enabled ?env \<and> permissionGranted ?s0 = Some True \<and> \<not> isLoading ?s0)"
    by (simp add: mounted_def)
  have h5: "permissionGranted ?r3 = Some True" by code_simp
  have h6: "\<not> isLoading ?r3" by code_simp
  have h7: "hasGetUserMedia ?r3" by code_simp
  have c0: "effect_facingMode_p0 ?off ?s0 = ?s0"
    using facing_mode_change_by_revision [of ?off ?s0] h0 by blast
  have c1: "released (effect_facingMode_p0 ?env ?r0) = released ?r0 @ [MediaStream 0]"
    using facing_mode_change_by_revision [of ?env ?r0 "MediaStream 0"] e h1 h2 by blast
  have c2: "calls (effect_p1 ?env ?s0) =
      calls ?s0 @ [Constraints (Some 640) (Some 480) (Some (facingMode ?env)) None]"
    using facing_mode_change_by_revision [of ?env ?s0] e h3 by blast
  have c3: "effect_facingMode_p3 ?env ?s0 = ?s0"
    using facing_mode_change_by_revision [of ?env ?s0] h4 by blast
  have c4: "calls (effect_facingMode_p3 ?env ?r3) =
      calls ?r3 @ [Constraints (Some 640) (Some 480) (Some (facingMode ?env)) None]"
    using facing_mode_change_by_revision [of ?env ?r3] e h5 h6 h7 by blast
  from c2 have c2': "calls (effect_p1 ?env ?s0) =
      calls ?s0 @ [Constraints (Some 640) (Some 480) (Some Environment) None]" by simp
  from c4 have c4': "calls (effect_facingMode_p3 ?env ?r3) =
      calls ?r3 @ [Constraints (Some 640) (Some 480) (Some Environment) None]" by simp
  from h0 c0 e h1 h2 c1 h3 c2' c3 h5 c4' show ?thesis by blast
qed

subsection \<open>No exception leaves the hook\<close>

lemma startCamera_call_not_throws: "startCamera_call p s \<noteq> Throws e s'"
  by (simp add: startCamera_call_def try_catch_not_throws)

lemma startCamera_call_unsupported:
  "enabled p \<Longrightarrow> \<not> hasGetUserMedia s \<Longrightarrow>
   \<exists>s'. startCamera_call p s = Returns s' \<and> calls s' = calls s \<and>
     \<not> isLoading s' \<and> \<not> isReady s' \<and>
     error s' = ''Unable to access camera. Please try again.''"
  by (simp add: startCamera_call_def startCamera_try_def getUserMedia_def try_catch_def
      stopCamera_def stopTracks_def startCamera_catch_def Let_def split: option.splits)

text \<open>
  C8, as stated, fails on the current hook for a rejection that is not an \<^verbatim>\<open>Error\<close>
  instance: the \<^verbatim>\<open>catch\<close> clause sets a message only under
  \<^verbatim>\<open>if (err instanceof Error)\<close>, so the call returns normally and leaves no message at all.
  It also fails on part 002 for an \<^verbatim>\<open>Error\<close> of an unrecognised name that carries no
  text: the message shown is the error's own, which is empty.
\<close>

theorem non_error_rejection_leaves_no_message:
  "error (world (startCamera_settle (Rejected NonError)
            (world (startCamera_call \<lparr>enabled = True, facingMode = User\<rparr> (mounted True User)))))
     = '''' \<and>
   \<not> isLoading (world (startCamera_settle (Rejected NonError)
            (world (startCamera_call \<lparr>enabled = True, facingMode = User\<rparr> (mounted True User))))) \<and>
   \<not> isReady (world (startCamera_settle (Rejected NonError)
            (world (startCamera_call \<lparr>enabled = True, facingMode = User\<rparr> (mounted True User))))) \<and>
   error (world (fst (initializeCamera_p2_settle (Rejected (ErrorObj ''AbortError'' ''''))
            (world (initializeCamera_p2_call None (mounted True User))))))
     = ''''"
  by code_simp

text \<open>
  C8, amended. No exception leaves the hook: \<^verbatim>\<open>startCamera\<close>, \<^verbatim>\<open>requestPermission\<close>
  and \<^verbatim>\<open>initializeCamera\<close> (part 002) never complete by throwing, neither before nor after
  their \<^verbatim>\<open>await\<close>. After a rejected device-open call they return normally.
  \<^verbatim>\<open>startCamera\<close> and \<^verbatim>\<open>initializeCamera\<close> leave the hook not loading and not ready;
  the current \<^verbatim>\<open>startCamera\<close> records a message when the rejection is an \<^verbatim>\<open>Error\<close>
  instance and leaves the message as it was otherwise; part 002 records a message for
  every rejection, which is empty only for an unrecognised \<^verbatim>\<open>Error\<close> whose own text is
  empty. \<^verbatim>\<open>requestPermission\<close> of the current hook always records its denial message
  and changes no other cell of the hook: loading, ready and the stream stay as they were. Where the device capability is missing, \<^verbatim>\<open>startCamera\<close> returns at once with
  its general message and makes no device-open call.
\<close>

theorem failures_stay_inside_the_hook:
  "startCamera_call p s \<noteq> Throws e sx \<and>
   startCamera_settle out s \<noteq> Throws e sx \<and>
   requestPermission_call s \<noteq> Throws e sx \<and>
   requestPermission_settle p0 out s \<noteq> Throws e sx \<and>
   initializeCamera_p2_call seen s \<noteq> Throws e sx \<and>
   fst (initializeCamera_p2_settle out s) \<noteq> Throws e sx \<and>
   (\<exists>s'. startCamera_settle (Rejected r) s = Returns s' \<and>
      \<not> isLoading s' \<and> \<not> isReady s' \<and>
      (case r of ErrorObj n m \<Rightarrow> error s' \<noteq> [] | NonError \<Rightarrow> error s' = error s)) \<and>
   (\<exists>s'. requestPermission_settle p0 (Rejected r) s = Returns s' \<and>
      error s' = ''Camera permission denied. Please allow camera access.'' \<and>
      isLoading s' = isLoading s \<and> isReady s' = isReady s \<and> stream s' = stream s \<and>
      streamRef s' = streamRef s \<and> released s' = released s) \<and>
   (\<exists>s'. initializeCamera_p2_settle (Rejected r) s = (Returns s', None) \<and>
      \<not> isLoading s' \<and> \<not> isReady s' \<and>
      (case r of
         ErrorObj n m \<Rightarrow> m = [] \<or> error s' \<noteq> []
       | NonError \<Rightarrow>
           error s' = ''Unable to access camera. Please check your permissions and try again.'')) \<and>
   (enabled p \<and> \<not> hasGetUserMedia s \<longrightarrow>
      (\<exists>s'. startCamera_call p s = Returns s' \<and> calls s' = calls s \<and>
         \<not> isLoading s' \<and> \<not> isReady s' \<and>
         error s' = ''Unable to access camera. Please try again.''))"
proof (intro conjI impI)
  show "startCamera_call p s \<noteq> Throws e sx" by (rule startCamera_call_not_throws)
  show "startCamera_settle out s \<noteq> Throws e sx"
    by (simp add: startCamera_settle_def try_catch_not_throws)
  show "requestPermission_call s \<noteq> Throws e sx"
    by (simp add: requestPermission_call_def try_catch_not_throws)
  show "requestPermission_settle p0 out s \<noteq> Throws e sx"
    by (simp add: requestPermission_settle_def try_catch_not_throws)
  show "initializeCamera_p2_call seen s \<noteq> Throws e sx"
    by (simp add: initializeCamera_p2_call_def try_catch_not_throws)
  show "fst (initializeCamera_p2_settle out s) \<noteq> Throws e sx"
    by (simp add: initializeCamera_p2_settle_def try_catch_not_throws split: prod.splits)
  show "\<exists>s'. startCamera_settle (Rejected r) s = Returns s' \<and>
      \<not> isLoading s' \<and> \<not> isReady s' \<and>
      (case r of ErrorObj n m \<Rightarrow> error s' \<noteq> [] | NonError \<Rightarrow> error s' = error s)"
    by (cases r) (simp_all add: startCamera_settle_rejected startCamera_catch_cells)
  show "\<exists>s'. requestPermission_settle p0 (Rejected r) s = Returns s' \<and>
      error s' = ''Camera permission denied. Please allow camera access.'' \<and>
      isLoading s' = isLoading s \<and> isReady s' = isReady s \<and> stream s' = stream s \<and>
      streamRef s' = streamRef s \<and> released s' = released s"
    by (simp add: requestPermission_settle_rejected)
  show "\<exists>s'. initializeCamera_p2_settle (Rejected r) s = (Returns s', None) \<and>
      \<not> isLoading s' \<and> \<not> isReady s' \<and>
      (case r of
         ErrorObj n m \<Rightarrow> m = [] \<or> error s' \<noteq> []
       | NonError \<Rightarrow>
           error s' = ''Unable to access camera. Please check your permissions and try again.'')"
    by (cases r)
       (simp_all add: initializeCamera_p2_settle_rejected initializeCamera_p2_catch_cells)
next
  assume "enabled p \<and> \<not> hasGetUserMedia s"
  then show "\<exists>s'. startCamera_call p s = Returns s' \<and> calls s' = calls s \<and>
         \<not> isLoading s' \<and> \<not> isReady s' \<and>
         error s' = ''Unable to access camera. Please try again.''"
    by (simp add: startCamera_call_unsupported)
qed

theorem failures_stay_inside_the_hook_witness:
  "enabled \<lparr>enabled = True, facingMode = User\<rparr> \<and> \<not> hasGetUserMedia (mounted False User) \<and>
   (\<exists>s'. startCamera_call \<lparr>enabled = True, facingMode = User\<rparr> (mounted False User) = Returns s' \<and>
      calls s' = calls (mounted False User) \<and> \<not> isLoading s' \<and> \<not> isReady s' \<and>
      error s' = ''Unable to access camera. Please try again.'') \<and>
   (\<exists>s'. startCamera_settle (Rejected (ErrorObj ''NotAllowedError'' ''Permission denied''))
            (mounted False User) = Returns s' \<and> \<not> isLoading s' \<and> \<not> isReady s' \<and>
      error s' \<noteq> [])"
proof -
  have h: "enabled \<lparr>enabled = True, facingMode = User\<rparr> \<and> \<not> hasGetUserMedia (mounted False User)"
    by (simp add: mounted_def)
  note t = failures_stay_inside_the_hook
      [of "\<lparr>enabled = True, facingMode = User\<rparr>" "mounted False User" NonError
          "mounted False User" Granted "\<lparr>enabled = True, facingMode = User\<rparr>" None
          "ErrorObj ''NotAllowedError'' ''Permission denied''"]
  from t h have a: "\<exists>s'. startCamera_call \<lparr>enabled = True, facingMode = User\<rparr> (mounted False User)
        = Returns s' \<and>
      calls s' = calls (mounted False User) \<and> \<not> isLoading s' \<and> \<not> isReady s' \<and>
      error s' = ''Unable to access camera. Please try again.''"
    by blast
  from t have b: "\<exists>s'. startCamera_settle (Rejected (ErrorObj ''NotAllowedError'' ''Permission denied''))
            (mounted False User) = Returns s' \<and> \<not> isLoading s' \<and> \<not> isReady s' \<and>
      error s' \<noteq> []"
    by simp
  from h a b show ?thesis by blast
qed

subsection \<open>The message processor never throws\<close>

lemma processMessage_not_rejected: "processMessage n msg img files \<noteq> RejectedWith e"
  by (simp add: processMessage_def split: promise.splits)

lemma processMessage_fallback:
  "processMessage_try n msg img files = RejectedWith e \<Longrightarrow>
   processMessage n msg img files = Fulfilled (JStr fallback, [])"
  by (simp add: processMessage_def)

lemma answer_fails:
  "request_fails n \<Longrightarrow> \<exists>e. answer n with_body failed dflt = RejectedWith e"
  by (auto simp: request_fails_def answer_def candidate_text_def split: sum.splits)

lemma processWithVision_fails:
  "request_fails n \<Longrightarrow> blob n \<noteq> ReaderSilent \<Longrightarrow>
   \<exists>e. processWithVision n text img files = RejectedWith e"
  using answer_fails [of n True "''Vision API request failed: ''" "''I couldn't analyze the image.''"]
  by (auto simp: processWithVision_def split: option.splits blob_read.splits)

lemma processMessage_try_fails:
  assumes "request_fails n" and "blob n \<noteq> ReaderSilent"
  shows "\<exists>e. processMessage_try n msg img files = RejectedWith e"
proof -
  note v = processWithVision_fails [OF assms]
  have f: "\<And>fs. \<exists>e. processWithFiles n msg fs = RejectedWith e"
    using assms(1) by (simp add: processWithFiles_def answer_fails)
  have t: "\<exists>e. processTextOnly n msg = RejectedWith e"
    using assms(1) by (simp add: processTextOnly_def answer_fails)
  show ?thesis
    unfolding processMessage_try_def Let_def
    using v f t by (auto split: option.splits list.splits)
qed

text \<open>
  C9. \<^verbatim>\<open>processMessage\<close> never completes by throwing, for every message, image and list
  of uploaded files and whatever the network does. Whenever a step inside its
  \<^verbatim>\<open>try\<close> block throws (routing to the vision request without an image, the network
  call, a failed status, the parsing of the body), it returns the fixed apology and
  speaks nothing; in particular it does so whenever the API request fails in one of
  these ways and the image reader does not stay silent.
\<close>

theorem processMessage_never_throws:
  "processMessage n msg img files \<noteq> RejectedWith e \<and>
   (processMessage_try n msg img files = RejectedWith e \<longrightarrow>
      processMessage n msg img files = Fulfilled (JStr fallback, [])) \<and>
   (request_fails n \<and> blob n \<noteq> ReaderSilent \<longrightarrow>
      processMessage n msg img files = Fulfilled (JStr fallback, [])) \<and>
   fallback =
     ''I apologize, but I'm having trouble processing your request right now. Please try again in a moment.''"
proof (intro conjI impI)
  show "processMessage n msg img files \<noteq> RejectedWith e" by (rule processMessage_not_rejected)
next
  assume "processMessage_try n msg img files = RejectedWith e"
  then show "processMessage n msg img files = Fulfilled (JStr fallback, [])"
    by (rule processMessage_fallback)
next
  assume "request_fails n \<and> blob n \<noteq> ReaderSilent"
  then obtain e' where "processMessage_try n msg img files = RejectedWith e'"
    using processMessage_try_fails by blast
  then show "processMessage n msg img files = Fulfilled (JStr fallback, [])"
    by (rule processMessage_fallback)
next
  show "fallback =
     ''I apologize, but I'm having trouble processing your request right now. Please try again in a moment.''"
    by (simp add: fallback_def)
qed

theorem processMessage_never_throws_witness:
  "processMessage_try
     \<lparr>api = Inl (ErrorObj ''TypeError'' ''Failed to fetch''), blob = ReaderLoaded [],
      speechSynthesis = True\<rparr>
     ''What do you see?'' (Some ''data:image/jpeg;base64,AAAA'') None
     = RejectedWith (ErrorObj ''TypeError'' ''Failed to fetch'') \<and>
   request_fails
     \<lparr>api = Inl (ErrorObj ''TypeError'' ''Failed to fetch''), blob = ReaderLoaded [],
      speechSynthesis = True\<rparr> \<and>
   blob \<lparr>api = Inl (ErrorObj ''TypeError'' ''Failed to fetch''), blob = ReaderLoaded [],
      speechSynthesis = True\<rparr> \<noteq> ReaderSilent \<and>
   processMessage
     \<lparr>api = Inl (ErrorObj ''TypeError'' ''Failed to fetch''), blob = ReaderLoaded [],
      speechSynthesis = True\<rparr>
     ''What do you see?'' (Some ''data:image/jpeg;base64,AAAA'') None
     = Fulfilled (JStr fallback, [])"
proof -
  let ?n = "\<lparr>api = Inl (ErrorObj ''TypeError'' ''Failed to fetch''), blob = ReaderLoaded [],
      speechSynthesis = True\<rparr>"
  have h1: "processMessage_try ?n ''What do you see?'' (Some ''data:image/jpeg;base64,AAAA'') None
     = RejectedWith (ErrorObj ''TypeError'' ''Failed to fetch'')"
    by code_simp
  have h2: "request_fails ?n" by code_simp
  have h3: "blob ?n \<noteq> ReaderSilent" by simp
  have c: "processMessage ?n ''What do you see?'' (Some ''data:image/jpeg;base64,AAAA'') None
     = Fulfilled (JStr fallback, [])"
    using processMessage_never_throws
      [of ?n "''What do you see?''" "Some ''data:image/jpeg;base64,AAAA''" None
          "ErrorObj ''TypeError'' ''Failed to fetch''"] h1
    by blast
  from h1 h2 h3 c show ?thesis by blast
qed

subsection \<open>Releasing the handle\<close>

text \<open>
  C10. \<^verbatim>\<open>stopCamera\<close> is idempotent, in the current hook and in part 001: from every
  state, a second call in succession leaves the whole world, and so the hook's cells and
  the log of released streams, as the first call left it.
\<close>

theorem stopCamera_idempotent:
  "stopCamera (stopCamera s) = stopCamera s \<and>
   stopCamera_p1 (stopCamera_p1 s) = stopCamera_p1 s"
  by (simp add: stopCamera_def stopCamera_p1_def stopTracks_def split: option.splits)

end
